theory Spec2Isabelle
  imports Complex_Main "HOL-Library.Sublist" "HOL-Library.Multiset"
begin

section \<open>Python string operations used by pipeline.py\<close>

text \<open>
  A Python \<open>str\<close> is modelled as a \<open>string\<close>, one \<open>char\<close> per character of the
  identifier (tracker identifiers are ASCII). The operations below follow the
  behaviour of \<open>str.replace\<close>, \<open>str.split\<close>, \<open>str.join\<close> and slicing \<open>s[:n]\<close>
  (which is \<open>take n\<close>).
\<close>

text \<open>\<open>s.replace(old, new)\<close>: every non-overlapping occurrence of \<open>old\<close>, scanning from
  the left. With an empty \<open>old\<close> Python inserts \<open>new\<close> before every character and at the
  end.\<close>

fun str_replace :: "string \<Rightarrow> string \<Rightarrow> string \<Rightarrow> string" where
  "str_replace old new [] = (if old = [] then new else [])"
| "str_replace old new (c # cs) =
     (if old = [] then new @ c # str_replace old new cs
      else if prefix old (c # cs)
           then new @ str_replace old new (drop (length old - 1) cs)
           else c # str_replace old new cs)"

text \<open>\<open>s.split(sep)\<close> for a one-character separator: always at least one field.\<close>

fun str_split :: "char \<Rightarrow> string \<Rightarrow> string list" where
  "str_split sep [] = [[]]"
| "str_split sep (c # cs) =
     (if c = sep then [] # str_split sep cs
      else (case str_split sep cs of
              [] \<Rightarrow> [[c]]
            | w # ws \<Rightarrow> (c # w) # ws))"

text \<open>\<open>sep.join(xs)\<close>.\<close>

fun str_join :: "string \<Rightarrow> string list \<Rightarrow> string" where
  "str_join sep [] = []"
| "str_join sep [x] = x"
| "str_join sep (x # y # ys) = x @ sep @ str_join sep (y # ys)"

section \<open>Errors and the work item\<close>

text \<open>Every exception the modelled code can raise, or receive from a library call, is a
  value of this type; a computation that may raise returns \<open>error + 'a\<close>.\<close>

datatype error =
    AssertionError
  | FirewallException
  | FileNotFoundError
  | FileExistsError
  | AttributeError
  | KeyError
  | IndexError
  | ValueError
  | HTTPError
  | RequestException
  | JSONDecodeError
  | OSError
  | ZstdError

text \<open>The seesaw item is a dictionary of attributes that the stages fill in pipeline
  order: \<open>item_name\<close> and \<open>data_dir\<close> come from the tracker stage, \<open>item_dir\<close>,
  \<open>warc_file_base\<close> and \<open>start_time\<close> from \<open>PrepareDirectories\<close>, \<open>dict_id\<close> and
  \<open>dict_project\<close> from \<open>WgetArgs\<close>, and \<open>downloader\<close> is \<open>item['stats']['downloader']\<close>
  set by \<open>PrepareStatsForTracker\<close>.\<close>

record item =
  item_name :: string
  data_dir :: string
  item_dir :: string
  warc_file_base :: string
  start_time :: string
  dict_id :: string
  dict_project :: string
  downloader :: string

section \<open>PrepareDirectories: names\<close>

text \<open>Line 105: \<open>item_name.replace(':', '_').replace('/', '_').replace('~', '_')\<close>.\<close>

definition escaped_item_name :: "string \<Rightarrow> string" where
  "escaped_item_name name =
     str_replace ''~'' ''_'' (str_replace ''/'' ''_'' (str_replace '':'' ''_'' name))"

text \<open>Line 106: \<open>'/'.join((item['data_dir'], escaped_item_name))\<close>.\<close>

definition dirname :: "string \<Rightarrow> string \<Rightarrow> string" where
  "dirname ddir name = str_join ''/'' [ddir, escaped_item_name name]"

text \<open>Lines 114-119. \<open>sha1\<close> stands for
  \<open>hashlib.sha1(s.encode('utf8')).hexdigest()\<close> and \<open>timestamp\<close> for the value of
  \<open>time.strftime('%Y%m%d-%H%M%S')\<close>; both are library results taken as parameters.\<close>

definition make_warc_file_base ::
  "string \<Rightarrow> (string \<Rightarrow> string) \<Rightarrow> string \<Rightarrow> string \<Rightarrow> string" where
  "make_warc_file_base warc_prefix sha1 timestamp name =
     str_join ''-''
       [warc_prefix,
        take 45 (escaped_item_name name),
        take 10 (sha1 name),
        timestamp]"

section \<open>CheckIP\<close>

text \<open>Lines 77-82: the six hostnames, in the order they are resolved.\<close>

definition check_hosts :: "string list" where
  "check_hosts =
     [''twitter.com'', ''facebook.com'', ''youtube.com'', ''microsoft.com'',
      ''icanhas.cheezburger.com'', ''archiveteam.org'']"

text \<open>\<open>socket.gethostbyname\<close> is a parameter; it returns an address or raises. The calls
  are made one after the other, so the first one that raises ends the scan.\<close>

fun resolve_all :: "(string \<Rightarrow> error + string) \<Rightarrow> string list \<Rightarrow> error + string list" where
  "resolve_all gethostbyname [] = Inr []"
| "resolve_all gethostbyname (h # hs) =
     (case gethostbyname h of
        Inl e \<Rightarrow> Inl e
      | Inr ip \<Rightarrow>
          (case resolve_all gethostbyname hs of
             Inl e \<Rightarrow> Inl e
           | Inr ips \<Rightarrow> Inr (ip # ips)))"

text \<open>Lines 70-95. The state is \<open>self._counter\<close>; the result is the exception raised, if
  any, and the counter afterwards. \<open>ip_set\<close> is the set of the addresses obtained.\<close>

definition CheckIP_process ::
  "(string \<Rightarrow> error + string) \<Rightarrow> int \<Rightarrow> (error + unit) \<times> int" where
  "CheckIP_process gethostbyname counter =
     (if counter \<le> 0 then
        (case resolve_all gethostbyname check_hosts of
           Inl e \<Rightarrow> (Inl e, counter)
         | Inr ips \<Rightarrow>
             (if card (set ips) \<noteq> 6 then (Inl FirewallException, counter)
              else (Inr (), 10)))
      else (Inr (), counter - 1))"

section \<open>The file system\<close>

text \<open>
  Regular files are a map from path to content, directories a set of paths; paths are
  compared as written. \<open>lies_under d p\<close> says that path \<open>p\<close> lies below directory \<open>d\<close>.
  The operations are those of \<open>os\<close> and \<open>shutil\<close> that the pipeline calls, on regular
  files, with the failures that depend on what exists.
\<close>

record fs =
  files :: "string \<rightharpoonup> string"
  dirs :: "string set"

definition lies_under :: "string \<Rightarrow> string \<Rightarrow> bool" where
  "lies_under d p = prefix (d @ ''/'') p"

definition parent_path :: "string \<Rightarrow> string" where
  "parent_path p = rev (drop 1 (dropWhile (\<lambda>c. c \<noteq> CHR ''/'') (rev p)))"

definition isdir :: "fs \<Rightarrow> string \<Rightarrow> bool" where
  "isdir s d = (d \<in> dirs s)"

text \<open>\<open>shutil.rmtree(d)\<close>: the directory and everything below it.\<close>

definition rmtree :: "string \<Rightarrow> fs \<Rightarrow> error + fs" where
  "rmtree d s =
     (if d \<notin> dirs s then Inl FileNotFoundError
      else Inr \<lparr>files = (\<lambda>p. if lies_under d p then None else files s p),
                dirs = {x \<in> dirs s. x \<noteq> d \<and> \<not> lies_under d x}\<rparr>)"

text \<open>\<open>os.makedirs(d)\<close>: raises when the path exists. The data directory, the parent of
  every directory the pipeline makes, exists when the stage runs.\<close>

definition makedirs :: "string \<Rightarrow> fs \<Rightarrow> error + fs" where
  "makedirs d s =
     (if d \<in> dirs s \<or> files s d \<noteq> None then Inl FileExistsError
      else Inr (s\<lparr>dirs := insert d (dirs s)\<rparr>))"

text \<open>\<open>open(p, 'w').close()\<close>: an empty file at \<open>p\<close>, created or truncated.\<close>

definition open_w :: "string \<Rightarrow> fs \<Rightarrow> error + fs" where
  "open_w p s =
     (if parent_path p \<notin> dirs s then Inl FileNotFoundError
      else if p \<in> dirs s then Inl OSError
      else Inr (s\<lparr>files := (files s)(p \<mapsto> [])\<rparr>))"

text \<open>\<open>os.rename(src, dst)\<close>: raises when \<open>src\<close> does not exist; replaces \<open>dst\<close>.\<close>

definition rename :: "string \<Rightarrow> string \<Rightarrow> fs \<Rightarrow> error + fs" where
  "rename src dst s =
     (case files s src of
        None \<Rightarrow> Inl FileNotFoundError
      | Some content \<Rightarrow> Inr (s\<lparr>files := ((files s)(src := None))(dst \<mapsto> content)\<rparr>))"

section \<open>Paths of the item's files\<close>

text \<open>The \<open>%\<close>-formatted paths of lines 121-122, 134-138 and 170-171.\<close>

definition staged_warc_gz :: "item \<Rightarrow> string" where
  "staged_warc_gz it = item_dir it @ ''/'' @ warc_file_base it @ ''.warc.gz''"

definition staged_warc_zst :: "item \<Rightarrow> string" where
  "staged_warc_zst it = item_dir it @ ''/'' @ warc_file_base it @ ''.warc.zst''"

definition staged_data_txt :: "item \<Rightarrow> string" where
  "staged_data_txt it = item_dir it @ ''/'' @ warc_file_base it @ ''_data.txt''"

definition final_warc_zst :: "item \<Rightarrow> string" where
  "final_warc_zst it =
     data_dir it @ ''/'' @ warc_file_base it @ ''.'' @ dict_project it @ ''.'' @ dict_id it
       @ ''.warc.zst''"

definition final_data_txt :: "item \<Rightarrow> string" where
  "final_data_txt it = data_dir it @ ''/'' @ warc_file_base it @ ''_data.txt''"

section \<open>PrepareDirectories.process\<close>

text \<open>The stage's surroundings: the clock value formatted by \<open>time.strftime\<close>, SHA-1, and
  the answer of \<open>requests.get('https://legacy-api.arpa.li/now')\<close>, which raises or gives
  a status code and a text.\<close>

record prepare_env =
  strftime :: string
  sha1_hexdigest :: "string \<Rightarrow> string"
  get_now :: "error + nat \<times> string"

text \<open>Lines 103-126. The result is the exception raised, if any, with the item and the
  file system as the stage leaves them.\<close>

definition PrepareDirectories_process ::
  "string \<Rightarrow> prepare_env \<Rightarrow> item \<Rightarrow> fs \<Rightarrow> (error + unit) \<times> item \<times> fs" where
  "PrepareDirectories_process warc_prefix env it s =
     (let d = dirname (data_dir it) (item_name it) in
      case (if isdir s d then rmtree d s else Inr s) of
        Inl e \<Rightarrow> (Inl e, it, s)
      | Inr s1 \<Rightarrow>
      (case makedirs d s1 of
        Inl e \<Rightarrow> (Inl e, it, s1)
      | Inr s2 \<Rightarrow>
      (let it1 = it\<lparr>item_dir := d,
                    warc_file_base :=
                      make_warc_file_base warc_prefix (sha1_hexdigest env) (strftime env)
                        (item_name it)\<rparr> in
       case open_w (staged_warc_gz it1) s2 of
        Inl e \<Rightarrow> (Inl e, it1, s2)
      | Inr s3 \<Rightarrow>
      (case open_w (staged_data_txt it1) s3 of
        Inl e \<Rightarrow> (Inl e, it1, s3)
      | Inr s4 \<Rightarrow>
      (case get_now env of
        Inl e \<Rightarrow> (Inl e, it1, s4)
      | Inr (status_code, text) \<Rightarrow>
          (if status_code \<noteq> 200 then (Inl AssertionError, it1, s4)
           else (case str_split (CHR ''.'') text of
                   [] \<Rightarrow> (Inl IndexError, it1, s4)
                 | t # _ \<Rightarrow> (Inr (), it1\<lparr>start_time := t\<rparr>, s4))))))))"

section \<open>MoveFiles.process\<close>

text \<open>Lines 140-141: the identifier of the follow-up item.\<close>

definition new_item :: "item \<Rightarrow> string" where
  "new_item it =
     str_join '':'' ([''web'', start_time it] @ drop 2 (str_split (CHR '':'') (item_name it)))"

text \<open>Lines 133-147. \<open>post\<close> is \<open>requests.post\<close> to the queue: given the body it raises or
  gives a status code. The result is the exception raised, if any, the file system
  afterwards and the list of bodies posted to the queue.\<close>

definition MoveFiles_process ::
  "(string \<Rightarrow> error + nat) \<Rightarrow> item \<Rightarrow> fs \<Rightarrow> (error + unit) \<times> fs \<times> string list" where
  "MoveFiles_process post it s =
     (case rename (staged_warc_zst it) (final_warc_zst it) s of
        Inl e \<Rightarrow> (Inl e, s, [])
      | Inr s1 \<Rightarrow>
      (case rename (staged_data_txt it) (final_data_txt it) s1 of
        Inl e \<Rightarrow> (Inl e, s1, [])
      | Inr s2 \<Rightarrow>
      (case rmtree (item_dir it) s2 of
        Inl e \<Rightarrow> (Inl e, s2, [])
      | Inr s3 \<Rightarrow>
      (case post (new_item it) of
        Inl e \<Rightarrow> (Inl e, s3, [new_item it])
      | Inr status_code \<Rightarrow>
          (if status_code \<noteq> 200 then (Inl AssertionError, s3, [new_item it])
           else (Inr (), s3, [new_item it]))))))"

section \<open>ChooseTargetAndUpload\<close>

text \<open>What the uploader reads from outside in one attempt: the parsed answer of the
  tracker's \<open>upload_targets\<close> request (or the exception of the request or of \<open>r.json()\<close>),
  the permutation \<open>random.shuffle\<close> applies, \<open>os.path.getsize\<close>, the receiver's answer to
  the probe of a domain for a name and a size (the truth value of \<open>r.json()['accepts']\<close>, or
  the exception of the request, a timeout included), and whether the \<open>RsyncUpload\<close> of the
  given files to a target completes.\<close>

record upload_env =
  upload_targets :: "error + string list"
  shuffle :: "string list \<Rightarrow> string list"
  getsize :: "string \<Rightarrow> error + nat"
  probe :: "string \<Rightarrow> string \<Rightarrow> nat \<Rightarrow> error + bool"
  rsync_upload :: "string \<Rightarrow> string list \<Rightarrow> bool"

text \<open>Line 203: \<open>re.search('^[^:]+://([^/:]+)', target).group(1)\<close>. The first group of
  non-colon characters must be non-empty and followed by \<open>://\<close> at the first colon; the
  domain is the longest non-empty run without \<open>/\<close> and \<open>:\<close> after it. Without a match
  \<open>re.search\<close> gives \<open>None\<close> and \<open>.group\<close> raises.\<close>

definition target_domain :: "string \<Rightarrow> error + string" where
  "target_domain target =
     (let scheme = takeWhile (\<lambda>c. c \<noteq> CHR '':'') target;
          rest = dropWhile (\<lambda>c. c \<noteq> CHR '':'') target;
          domain = takeWhile (\<lambda>c. c \<noteq> CHR ''/'' \<and> c \<noteq> CHR '':'') (drop 3 rest)
      in if scheme = [] \<or> \<not> prefix ''://'' rest \<or> domain = [] then Inl AttributeError
         else Inr domain)"

text \<open>Lines 203-215, the body of the loop up to the test: the probe of one candidate.\<close>

definition probe_target :: "upload_env \<Rightarrow> item \<Rightarrow> string \<Rightarrow> error + bool" where
  "probe_target env it target =
     (case target_domain target of
        Inl e \<Rightarrow> Inl e
      | Inr domain \<Rightarrow>
          (case getsize env (final_warc_zst it) of
             Inl e \<Rightarrow> Inl e
           | Inr size' \<Rightarrow> probe env domain (item_name it) size'))"

text \<open>Lines 201-219, the loop over the shuffled candidates. The result is the value
  returned (\<open>None\<close> when the loop runs off the end) or the exception, with the candidates
  tried, in order.\<close>

fun find_target_loop ::
  "upload_env \<Rightarrow> item \<Rightarrow> string list \<Rightarrow> (error + string option) \<times> string list" where
  "find_target_loop env it [] = (Inr None, [])"
| "find_target_loop env it (target # targets) =
     (case probe_target env it target of
        Inl e \<Rightarrow> (Inl e, [target])
      | Inr accepts \<Rightarrow>
          (if accepts
           then (Inr (Some (str_replace '':downloader'' (downloader it) target)), [target])
           else (case find_target_loop env it targets of
                   (r, tried) \<Rightarrow> (r, target # tried))))"

text \<open>Lines 195-219.\<close>

definition find_target ::
  "upload_env \<Rightarrow> item \<Rightarrow> (error + string option) \<times> string list" where
  "find_target env it =
     (case upload_targets env of
        Inl e \<Rightarrow> (Inl e, [])
      | Inr targets \<Rightarrow> find_target_loop env it (shuffle env targets))"

text \<open>The task status seesaw keeps for the item, and the event loop's pending timeouts:
  \<open>IOLoop.instance().add_timeout(delay, callback)\<close> appends one and returns at once. The
  only callback this task registers is \<open>functools.partial(self.process, item)\<close>. \<open>now\<close>
  is the loop's time in seconds.\<close>

datatype task_status = Running | Completed | Failed

datatype callback = Process

record loop_state =
  status :: task_status
  timeouts :: "(nat \<times> callback) list"
  now :: nat

definition retry_sleep :: nat where
  "retry_sleep = 10"

text \<open>Lines 188-193.\<close>

definition retry :: "loop_state \<Rightarrow> loop_state" where
  "retry st = st\<lparr>timeouts := timeouts st @ [(retry_sleep, Process)]\<rparr>"

text \<open>seesaw's \<open>Task.complete_item\<close>.\<close>

definition complete_item :: "loop_state \<Rightarrow> loop_state" where
  "complete_item st = st\<lparr>status := Completed\<rparr>"

text \<open>Lines 160-186. The bare \<open>except\<close> catches every exception of \<open>find_target\<close> and the
  failed assertion alike. The inner \<open>RsyncUpload\<close> calls \<open>on_complete_item\<close> or
  \<open>on_fail_item\<close>, which lines 184-185 set to \<open>complete_item\<close> and \<open>retry\<close>.\<close>

definition ChooseTargetAndUpload_process ::
  "upload_env \<Rightarrow> item \<Rightarrow> loop_state \<Rightarrow> loop_state" where
  "ChooseTargetAndUpload_process env it st =
     (case fst (find_target env it) of
        Inl e \<Rightarrow> retry st
      | Inr None \<Rightarrow> retry st
      | Inr (Some target) \<Rightarrow>
          (if rsync_upload env target [final_warc_zst it, final_data_txt it]
           then complete_item st
           else retry st))"

text \<open>Line 155-158, \<open>enqueue\<close>: the item starts and the first attempt runs.\<close>

definition enqueue :: "upload_env \<Rightarrow> item \<Rightarrow> loop_state" where
  "enqueue env it =
     ChooseTargetAndUpload_process env it \<lparr>status = Running, timeouts = [], now = 0\<rparr>"

text \<open>The event loop, for this item: \<open>run envs it n\<close> is the state after the first attempt
  and the firing of up to \<open>n\<close> timeouts, each when its delay has passed. \<open>envs k\<close> is
  what attempt \<open>k\<close> finds outside. With no timeout pending the loop has nothing to run.\<close>

fun run :: "(nat \<Rightarrow> upload_env) \<Rightarrow> item \<Rightarrow> nat \<Rightarrow> loop_state" where
  "run envs it 0 = enqueue (envs 0) it"
| "run envs it (Suc n) =
     (let st = run envs it n in
      case timeouts st of
        [] \<Rightarrow> st
      | (delay, Process) # pending \<Rightarrow>
          ChooseTargetAndUpload_process (envs (Suc n)) it
            (st\<lparr>timeouts := pending, now := now st + delay\<rparr>))"

text \<open>An attempt succeeds when a target is selected and the transfer to it completes.\<close>

definition attempt_succeeds :: "upload_env \<Rightarrow> item \<Rightarrow> bool" where
  "attempt_succeeds env it =
     (case fst (find_target env it) of
        Inr (Some target) \<Rightarrow> rsync_upload env target [final_warc_zst it, final_data_txt it]
      | _ \<Rightarrow> False)"

section \<open>ZstdDict\<close>

text \<open>The cached record \<open>{'id': ..., 'dict': ...}\<close> and the class attributes \<open>created\<close> and
  \<open>data\<close>. Times are the values of \<open>time.time()\<close>, in seconds.\<close>

record dict_data =
  id' :: string
  dict :: string

record ZstdDict =
  created :: real
  data :: "dict_data option"

text \<open>An HTTP response: status code, body, and what \<open>.json()\<close> gives for it (an object
  with string fields, or an exception).\<close>

record response =
  status_code :: nat
  content :: string
  json :: "error + (string \<rightharpoonup> string)"

text \<open>What \<open>get_dict\<close> reads from outside: \<open>time.time()\<close> at line 247 and at the store
  (line 258 or 272), the answer of the metadata request, the answer of a download of a
  URL, SHA-256 and zstandard decompression.\<close>

record dict_env =
  time_check :: real
  time_store :: real
  get_dictionary :: "error + response"
  get_url :: "string \<Rightarrow> error + response"
  sha256_hexdigest :: "string \<Rightarrow> string"
  decompress :: "string \<Rightarrow> error + string"

datatype request = GetDictionary | GetUrl string

text \<open>\<open>Response.raise_for_status\<close> raises for the status codes 400 to 599.\<close>

definition raise_for_status :: "response \<Rightarrow> error + unit" where
  "raise_for_status r =
     (if 400 \<le> status_code r \<and> status_code r < 600 then Inl HTTPError else Inr ())"

text \<open>\<open>d[k]\<close> on a dictionary.\<close>

definition getitem :: "(string \<rightharpoonup> string) \<Rightarrow> string \<Rightarrow> error + string" where
  "getitem d k = (case d k of None \<Rightarrow> Inl KeyError | Some v \<Rightarrow> Inr v)"

definition zstd_magic :: string where
  "zstd_magic = [CHR 0x28, CHR 0xB5, CHR 0x2F, CHR 0xFD]"

text \<open>Lines 260-273: download, check, store. The result is the value returned or the
  exception, the class state afterwards, and the requests made here.\<close>

definition download_dict ::
  "dict_env \<Rightarrow> (string \<rightharpoonup> string) \<Rightarrow> ZstdDict \<Rightarrow> (error + dict_data) \<times> ZstdDict \<times> request list"
  where
  "download_dict env resp z =
     (case getitem resp ''url'' of
        Inl e \<Rightarrow> (Inl e, z, [])
      | Inr url \<Rightarrow>
      (case get_url env url of
        Inl e \<Rightarrow> (Inl e, z, [GetUrl url])
      | Inr response_dict \<Rightarrow>
      (case raise_for_status response_dict of
        Inl e \<Rightarrow> (Inl e, z, [GetUrl url])
      | Inr _ \<Rightarrow>
      (let raw_data = content response_dict in
       case getitem resp ''sha256'' of
        Inl e \<Rightarrow> (Inl e, z, [GetUrl url])
      | Inr sha256 \<Rightarrow>
      (if sha256_hexdigest env raw_data \<noteq> sha256 then (Inl ValueError, z, [GetUrl url])
       else
      (case (if take 4 raw_data = zstd_magic then decompress env raw_data else Inr raw_data) of
        Inl e \<Rightarrow> (Inl e, z, [GetUrl url])
      | Inr raw_data' \<Rightarrow>
      (case getitem resp ''id'' of
        Inl e \<Rightarrow> (Inl e, z, [GetUrl url])
      | Inr i \<Rightarrow>
          (let d = \<lparr>id' = i, dict = raw_data'\<rparr> in
           (Inr d, \<lparr>created = time_store env, data = Some d\<rparr>, [GetUrl url])))))))))"

text \<open>Lines 249-259, and the download when the id differs or nothing is cached.\<close>

definition refresh_dict ::
  "dict_env \<Rightarrow> ZstdDict \<Rightarrow> (error + dict_data) \<times> ZstdDict \<times> request list" where
  "refresh_dict env z =
     (case get_dictionary env of
        Inl e \<Rightarrow> (Inl e, z, [GetDictionary])
      | Inr r \<Rightarrow>
      (case raise_for_status r of
        Inl e \<Rightarrow> (Inl e, z, [GetDictionary])
      | Inr _ \<Rightarrow>
      (case json r of
        Inl e \<Rightarrow> (Inl e, z, [GetDictionary])
      | Inr resp \<Rightarrow>
      (case (case data z of
               None \<Rightarrow> Inr None
             | Some d \<Rightarrow>
                 (case getitem resp ''id'' of
                    Inl e \<Rightarrow> Inl e
                  | Inr i \<Rightarrow> Inr (if i = id' d then Some d else None))) of
        Inl e \<Rightarrow> (Inl e, z, [GetDictionary])
      | Inr (Some d) \<Rightarrow> (Inr d, z\<lparr>created := time_store env\<rparr>, [GetDictionary])
      | Inr None \<Rightarrow>
          (case download_dict env resp z of
             (r, z', reqs) \<Rightarrow> (r, z', GetDictionary # reqs))))))"

text \<open>Lines 245-273.\<close>

definition get_dict ::
  "dict_env \<Rightarrow> ZstdDict \<Rightarrow> (error + dict_data) \<times> ZstdDict \<times> request list" where
  "get_dict env z =
     (case data z of
        Some d \<Rightarrow>
          (if time_check env - created z < 1800 then (Inr d, z, [])
           else refresh_dict env z)
      | None \<Rightarrow> refresh_dict env z)"

section \<open>A worked item\<close>

text \<open>The item of the end-to-end scenario after the fetch: the staging directory holds the
  placeholder, the archive the fetch wrote and the sidecar file. A queue that answers 200
  and one that answers 500; a resolver with six distinct addresses and one behind a
  proxy.\<close>

definition example_item :: item where
  "example_item =
     \<lparr>item_name = ''web:initial:octocat/Hello-World'',
      data_dir = ''data'',
      item_dir = ''data/web_initial_octocat_Hello-World'',
      warc_file_base = ''github-web_initial_octocat_Hello-World-0123456789-20210730-120000'',
      start_time = ''1627646400'',
      dict_id = ''17'',
      dict_project = ''github'',
      downloader = ''bob''\<rparr>"

definition example_fs :: fs where
  "example_fs =
     \<lparr>files = [staged_warc_gz example_item \<mapsto> [],
               staged_warc_zst example_item \<mapsto> ''WARC'',
               staged_data_txt example_item \<mapsto> ''stats''],
      dirs = {''data'', ''data/web_initial_octocat_Hello-World''}\<rparr>"

definition queue_accepts :: "string \<Rightarrow> error + nat" where
  "queue_accepts body = Inr 200"

definition queue_rejects :: "string \<Rightarrow> error + nat" where
  "queue_rejects body = Inr 500"

definition example_dns :: "string \<Rightarrow> string" where
  "example_dns h =
     (if h = ''twitter.com'' then ''104.244.42.65''
      else if h = ''facebook.com'' then ''157.240.1.35''
      else if h = ''youtube.com'' then ''142.250.72.14''
      else if h = ''microsoft.com'' then ''20.70.246.20''
      else if h = ''icanhas.cheezburger.com'' then ''216.176.186.210''
      else ''65.21.197.201'')"

definition proxied_dns :: "string \<Rightarrow> string" where
  "proxied_dns h = ''10.0.0.1''"

text \<open>The same item before staging, with the staging stage's surroundings.\<close>

definition example_prepare_env :: prepare_env where
  "example_prepare_env =
     \<lparr>strftime = ''20210730-120000'',
      sha1_hexdigest = (\<lambda>name. ''0123456789abcdef0123456789abcdef01234567''),
      get_now = Inr (200, ''1627646400.517'')\<rparr>"

definition fresh_item :: item where
  "fresh_item =
     \<lparr>item_name = ''web:initial:octocat/Hello-World'',
      data_dir = ''data'',
      item_dir = [],
      warc_file_base = [],
      start_time = [],
      dict_id = [],
      dict_project = [],
      downloader = []\<rparr>"

definition fresh_fs :: fs where
  "fresh_fs = \<lparr>files = Map.empty, dirs = {''data''}\<rparr>"

text \<open>Three upload targets, of which the receiver at \<open>b.example.org\<close> alone accepts;
  the shuffle reverses the list.\<close>

definition example_targets :: "string list" where
  "example_targets =
     [''rsync://a.example.org/github/:downloader/'',
      ''rsync://b.example.org:873/github/:downloader/'',
      ''rsync://c.example.org/github/:downloader/'']"

definition example_upload_env :: upload_env where
  "example_upload_env =
     \<lparr>upload_targets = Inr example_targets,
      shuffle = rev,
      getsize = (\<lambda>path. Inr 52428800),
      probe = (\<lambda>domain name size'. Inr (domain = ''b.example.org'')),
      rsync_upload = (\<lambda>target paths. True)\<rparr>"

text \<open>Surroundings in which an attempt fails: the tracker request raises, the probe
  raises, every receiver declines, the transfer fails. \<open>example_envs\<close> has the tracker
  down at the first attempt, every receiver declining at the second, and all well from
  the third on.\<close>

definition tracker_down_env :: upload_env where
  "tracker_down_env = example_upload_env\<lparr>upload_targets := Inl RequestException\<rparr>"

definition all_reject_env :: upload_env where
  "all_reject_env = example_upload_env\<lparr>probe := (\<lambda>domain name size'. Inr False)\<rparr>"

definition probe_timeout_env :: upload_env where
  "probe_timeout_env = example_upload_env\<lparr>probe := (\<lambda>domain name size'. Inl RequestException)\<rparr>"

definition transfer_fails_env :: upload_env where
  "transfer_fails_env = example_upload_env\<lparr>rsync_upload := (\<lambda>target paths. False)\<rparr>"

definition example_envs :: "nat \<Rightarrow> upload_env" where
  "example_envs k =
     (if k = 0 then tracker_down_env else if k = 1 then all_reject_env else example_upload_env)"

text \<open>A cache holding dictionary 17, and surroundings of \<open>get_dict\<close> given the time, the id
  and the digest the metadata endpoint reports, and the status code of the download. The
  downloaded payload has digest \<open>9f2c\<close>.\<close>

definition example_cache :: ZstdDict where
  "example_cache = \<lparr>created = 1627646000, data = Some \<lparr>id' = ''17'', dict = ''OLD-DICT''\<rparr>\<rparr>"

definition example_dict_env :: "real \<Rightarrow> string \<Rightarrow> string \<Rightarrow> nat \<Rightarrow> dict_env" where
  "example_dict_env t i digest code =
     \<lparr>time_check = t,
      time_store = t + 1,
      get_dictionary =
        Inr \<lparr>status_code = 200, content = [],
             json = Inr [''id'' \<mapsto> i, ''url'' \<mapsto> ''https://legacy-api.arpa.li/dict/new'',
                         ''sha256'' \<mapsto> digest]\<rparr>,
      get_url = (\<lambda>url. Inr \<lparr>status_code = code, content = ''NEW-DICT'',
                              json = Inl JSONDecodeError\<rparr>),
      sha256_hexdigest = (\<lambda>bytes. if bytes = ''NEW-DICT'' then ''9f2c'' else ''0000''),
      decompress = (\<lambda>bytes. Inl ZstdError)\<rparr>"

section \<open>Properties of the string operations\<close>

lemma str_replace_char:
  "str_replace [a] [b] s = map (\<lambda>c. if c = a then b else c) s"
  by (induction s) auto

lemma escaped_item_name_map:
  "escaped_item_name name =
     map (\<lambda>c. if c = CHR '':'' \<or> c = CHR ''/'' \<or> c = CHR ''~'' then CHR ''_'' else c) name"
  by (simp add: escaped_item_name_def str_replace_char)

section \<open>Staging directory name\<close>



section \<open>Network sanity check\<close>

lemma resolve_all_map:
  "\<forall>h \<in> set hs. g h = Inr (ip h) \<Longrightarrow> resolve_all g hs = Inr (map ip hs)"
  by (induction hs) auto

text \<open>
  C8. When the check runs (the counter is not positive) and the six fixed hostnames
  resolve, the set of addresses has at most six elements; with fewer than six distinct
  addresses the stage raises and leaves the counter as it was, and with exactly six it
  returns normally and sets the counter to 10.
\<close>

theorem check_ip_six:
  assumes "counter \<le> 0" and "\<forall>h \<in> set check_hosts. gethostbyname h = Inr (ip h)"
  shows "length check_hosts = 6
    \<and> card (ip ` set check_hosts) \<le> 6
    \<and> CheckIP_process gethostbyname counter =
       (if card (ip ` set check_hosts) < 6 then (Inl FirewallException, counter)
        else (Inr (), 10))"
proof -
  have r: "resolve_all gethostbyname check_hosts = Inr (map ip check_hosts)"
    using assms(2) by (rule resolve_all_map)
  have l: "length check_hosts = 6" by (simp add: check_hosts_def)
  have c: "card (ip ` set check_hosts) \<le> 6"
    using card_length [of "map ip check_hosts"] l by simp
  show ?thesis using assms(1) r l c by (auto simp: CheckIP_process_def)
qed

theorem check_ip_six_witness:
  "CheckIP_process (Inr \<circ> example_dns) 0 = (Inr (), 10)
   \<and> CheckIP_process (Inr \<circ> proxied_dns) 0 = (Inl FirewallException, 0)"
  using check_ip_six [of 0 "Inr \<circ> example_dns" example_dns]
        check_ip_six [of 0 "Inr \<circ> proxied_dns" proxied_dns]
  by (simp add: check_hosts_def example_dns_def proxied_dns_def)


section \<open>Finalize: moving the files\<close>

lemmas path_defs = staged_warc_gz_def staged_warc_zst_def staged_data_txt_def
  final_warc_zst_def final_data_txt_def

lemma str_split_not_Nil: "str_split sep s \<noteq> []"
  by (induction s) (auto split: list.splits)

lemma str_split_field:
  "sep \<notin> set a \<Longrightarrow> str_split sep (a @ sep # b) = a # str_split sep b"
  by (induction a) (auto split: list.splits)

lemma str_join_Cons:
  "xs \<noteq> [] \<Longrightarrow> str_join sep (x # xs) = x @ sep @ str_join sep xs"
  by (cases xs) auto

lemma str_join_split: "str_join [sep] (str_split sep s) = s"
proof (induction s)
  case Nil
  show ?case by simp
next
  case (Cons c s)
  obtain w ws where ws: "str_split sep s = w # ws"
    using str_split_not_Nil [of sep s] by (cases "str_split sep s") auto
  show ?case
  proof (cases "c = sep")
    case True
    then show ?thesis using Cons ws by simp
  next
    case False
    then show ?thesis using Cons ws by (cases ws) auto
  qed
qed

lemma new_item_fields:
  assumes "CHR '':'' \<notin> set ty" and "CHR '':'' \<notin> set cfg"
    and "item_name it = ty @ '':'' @ cfg @ '':'' @ rest"
  shows "new_item it = ''web:'' @ start_time it @ '':'' @ rest"
proof -
  have "str_split (CHR '':'') (item_name it) = ty # cfg # str_split (CHR '':'') rest"
    using assms by (simp add: str_split_field)
  then show ?thesis
    using str_join_split [of "CHR '':''" rest]
    by (simp add: new_item_def str_join_Cons str_split_not_Nil)
qed

lemma staged_paths_distinct:
  "staged_warc_gz it \<noteq> staged_warc_zst it"
  "staged_data_txt it \<noteq> staged_warc_zst it"
  "staged_warc_gz it \<noteq> staged_data_txt it"
  by (simp_all add: path_defs)

lemma staged_under:
  "lies_under (item_dir it) (staged_warc_gz it)"
  "lies_under (item_dir it) (staged_warc_zst it)"
  "lies_under (item_dir it) (staged_data_txt it)"
  by (simp_all add: path_defs lies_under_def)

lemma suffix_differs: "a @ ''.warc.zst'' \<noteq> b @ ''_data.txt''"
proof
  assume "a @ ''.warc.zst'' = b @ ''_data.txt''"
  then have "rev (a @ ''.warc.zst'') = rev (b @ ''_data.txt'')"
    by (rule arg_cong)
  then show False by simp
qed

lemma final_zst_not_data_txt:
  "staged_data_txt it \<noteq> final_warc_zst it"
  "final_data_txt it \<noteq> final_warc_zst it"
proof -
  have f: "final_warc_zst it =
      (data_dir it @ ''/'' @ warc_file_base it @ ''.'' @ dict_project it @ ''.'' @ dict_id it)
        @ ''.warc.zst''"
    by (simp add: final_warc_zst_def)
  have s: "staged_data_txt it = (item_dir it @ ''/'' @ warc_file_base it) @ ''_data.txt''"
    by (simp add: staged_data_txt_def)
  have d: "final_data_txt it = (data_dir it @ ''/'' @ warc_file_base it) @ ''_data.txt''"
    by (simp add: final_data_txt_def)
  show "staged_data_txt it \<noteq> final_warc_zst it"
    unfolding f s using suffix_differs by metis
  show "final_data_txt it \<noteq> final_warc_zst it"
    unfolding f d using suffix_differs by metis
qed

lemma MoveFiles_reaches_post:
  assumes "files s (staged_warc_zst it) = Some w"
    and "files s (staged_data_txt it) = Some t"
    and "item_dir it \<in> dirs s"
  shows "MoveFiles_process post it s =
     ((case post (new_item it) of
         Inl e \<Rightarrow> Inl e
       | Inr code \<Rightarrow> if code \<noteq> 200 then Inl AssertionError else Inr ()),
      \<lparr>files = (\<lambda>p. if lies_under (item_dir it) p then None
                     else if p = final_data_txt it then Some t
                     else if p = final_warc_zst it then Some w
                     else files s p),
       dirs = {x \<in> dirs s. x \<noteq> item_dir it \<and> \<not> lies_under (item_dir it) x}\<rparr>,
      [new_item it])"
proof -
  define s1 where "s1 = s\<lparr>files := ((files s)(staged_warc_zst it := None))(final_warc_zst it \<mapsto> w)\<rparr>"
  define s2 where "s2 = s1\<lparr>files := ((files s1)(staged_data_txt it := None))(final_data_txt it \<mapsto> t)\<rparr>"
  define s3 where "s3 =
      \<lparr>files = (\<lambda>p. if lies_under (item_dir it) p then None
                     else if p = final_data_txt it then Some t
                     else if p = final_warc_zst it then Some w
                     else files s p),
       dirs = {x \<in> dirs s. x \<noteq> item_dir it \<and> \<not> lies_under (item_dir it) x}\<rparr>"
  have r1: "rename (staged_warc_zst it) (final_warc_zst it) s = Inr s1"
    using assms(1) by (simp add: rename_def s1_def)
  have "files s1 (staged_data_txt it) = Some t"
    using assms(2) staged_paths_distinct(2) [of it] final_zst_not_data_txt(1) [of it]
    by (simp add: s1_def)
  then have r2: "rename (staged_data_txt it) (final_data_txt it) s1 = Inr s2"
    by (simp add: rename_def s2_def)
  have fe: "(\<lambda>p. if lies_under (item_dir it) p then None else files s2 p) = files s3"
    using staged_under [of it] final_zst_not_data_txt(2) [of it]
    by (auto simp: fun_eq_iff s1_def s2_def s3_def)
  have "dirs s2 = dirs s" by (simp add: s1_def s2_def)
  then have r3: "rmtree (item_dir it) s2 = Inr s3"
    using assms(3) fe by (simp add: rmtree_def s3_def)
  have "MoveFiles_process post it s =
     ((case post (new_item it) of
         Inl e \<Rightarrow> Inl e
       | Inr code \<Rightarrow> if code \<noteq> 200 then Inl AssertionError else Inr ()),
      s3, [new_item it])"
    by (simp add: MoveFiles_process_def r1 r2 r3 split: sum.splits)
  then show ?thesis by (simp add: s3_def)
qed

lemma MoveFiles_posts_only_after:
  assumes "snd (snd (MoveFiles_process post it s)) \<noteq> []"
  shows "\<exists>s1 s2 s3. rename (staged_warc_zst it) (final_warc_zst it) s = Inr s1
      \<and> rename (staged_data_txt it) (final_data_txt it) s1 = Inr s2
      \<and> rmtree (item_dir it) s2 = Inr s3
      \<and> fst (snd (MoveFiles_process post it s)) = s3"
  using assms by (auto simp: MoveFiles_process_def split: sum.splits if_splits)

text \<open>
  C1, as claimed: for an item of type \<open>web\<close> no follow-up item is posted. The code has no
  test of the type: for the item \<open>web:initial:octocat/Hello-World\<close> the step returns
  normally and has posted \<open>web:1627646400:octocat/Hello-World\<close> to the queue.
\<close>

theorem finalize_requeues_web_counterexample:
  "take 1 (str_split (CHR '':'') (item_name example_item)) = [''web'']
   \<and> fst (MoveFiles_process queue_accepts example_item example_fs) = Inr ()
   \<and> snd (snd (MoveFiles_process queue_accepts example_item example_fs))
       = [''web:1627646400:octocat/Hello-World'']"
  by (simp add: MoveFiles_process_def rename_def rmtree_def example_item_def example_fs_def path_defs queue_accepts_def new_item_def lies_under_def)

text \<open>
  C1, amended. Whatever the item's type, once the archive and the sidecar are in the
  staging directory (so that the renames and the deletion succeed) the step posts exactly
  one follow-up item to the queue: \<open>web\<close>, the recorded start time and the fields of the
  identifier after the second, joined by colons. For an identifier \<open>type:config:rest\<close>
  that is \<open>web:start_time:rest\<close>.
\<close>

theorem finalize_always_requeues:
  assumes "files s (staged_warc_zst it) = Some w"
    and "files s (staged_data_txt it) = Some t"
    and "item_dir it \<in> dirs s"
  shows "snd (snd (MoveFiles_process post it s)) = [new_item it]
    \<and> new_item it =
        str_join '':'' (''web'' # start_time it # drop 2 (str_split (CHR '':'') (item_name it)))
    \<and> (\<forall>ty cfg rest. CHR '':'' \<notin> set ty \<and> CHR '':'' \<notin> set cfg
          \<and> item_name it = ty @ '':'' @ cfg @ '':'' @ rest
        \<longrightarrow> new_item it = ''web:'' @ start_time it @ '':'' @ rest)"
  using MoveFiles_reaches_post [OF assms, of post] new_item_fields [of _ _ it]
  by (auto simp: new_item_def)

theorem finalize_always_requeues_witness:
  "snd (snd (MoveFiles_process queue_accepts example_item example_fs)) = [new_item example_item]
   \<and> new_item example_item = ''web:1627646400:octocat/Hello-World''"
  using finalize_always_requeues
    [of example_fs example_item "''WARC''" "''stats''" queue_accepts]
  by (simp add: example_item_def example_fs_def path_defs new_item_def)

text \<open>
  C10. The POST to the queue is made only after both renames and the deletion of the
  staging directory have succeeded, on the file system they left. When the queue answers
  with a status other than 200 the step raises \<open>AssertionError\<close> and the file system stays
  as the renames and the deletion left it: the staging directory is gone and the archive
  and the sidecar are at their final paths.
\<close>

theorem finalize_not_atomic:
  "(snd (snd (MoveFiles_process post it s)) \<noteq> [] \<longrightarrow>
      (\<exists>s1 s2 s3. rename (staged_warc_zst it) (final_warc_zst it) s = Inr s1
         \<and> rename (staged_data_txt it) (final_data_txt it) s1 = Inr s2
         \<and> rmtree (item_dir it) s2 = Inr s3
         \<and> fst (snd (MoveFiles_process post it s)) = s3))
   \<and> (files s (staged_warc_zst it) = Some w \<and> files s (staged_data_txt it) = Some t
        \<and> item_dir it \<in> dirs s \<and> post (new_item it) = Inr code \<and> code \<noteq> 200 \<longrightarrow>
      fst (MoveFiles_process post it s) = Inl AssertionError
      \<and> snd (snd (MoveFiles_process post it s)) = [new_item it]
      \<and> item_dir it \<notin> dirs (fst (snd (MoveFiles_process post it s)))
      \<and> (\<forall>p. files (fst (snd (MoveFiles_process post it s))) p =
            (if lies_under (item_dir it) p then None
             else if p = final_data_txt it then Some t
             else if p = final_warc_zst it then Some w
             else files s p)))"
proof (rule conjI)
  show "snd (snd (MoveFiles_process post it s)) \<noteq> [] \<longrightarrow>
      (\<exists>s1 s2 s3. rename (staged_warc_zst it) (final_warc_zst it) s = Inr s1
         \<and> rename (staged_data_txt it) (final_data_txt it) s1 = Inr s2
         \<and> rmtree (item_dir it) s2 = Inr s3
         \<and> fst (snd (MoveFiles_process post it s)) = s3)"
    using MoveFiles_posts_only_after [of post it s] by blast
next
  show "files s (staged_warc_zst it) = Some w \<and> files s (staged_data_txt it) = Some t
        \<and> item_dir it \<in> dirs s \<and> post (new_item it) = Inr code \<and> code \<noteq> 200 \<longrightarrow>
      fst (MoveFiles_process post it s) = Inl AssertionError
      \<and> snd (snd (MoveFiles_process post it s)) = [new_item it]
      \<and> item_dir it \<notin> dirs (fst (snd (MoveFiles_process post it s)))
      \<and> (\<forall>p. files (fst (snd (MoveFiles_process post it s))) p =
            (if lies_under (item_dir it) p then None
             else if p = final_data_txt it then Some t
             else if p = final_warc_zst it then Some w
             else files s p))"
  proof
    assume h: "files s (staged_warc_zst it) = Some w \<and> files s (staged_data_txt it) = Some t
        \<and> item_dir it \<in> dirs s \<and> post (new_item it) = Inr code \<and> code \<noteq> 200"
    then show "fst (MoveFiles_process post it s) = Inl AssertionError
      \<and> snd (snd (MoveFiles_process post it s)) = [new_item it]
      \<and> item_dir it \<notin> dirs (fst (snd (MoveFiles_process post it s)))
      \<and> (\<forall>p. files (fst (snd (MoveFiles_process post it s))) p =
            (if lies_under (item_dir it) p then None
             else if p = final_data_txt it then Some t
             else if p = final_warc_zst it then Some w
             else files s p))"
      using MoveFiles_reaches_post [of s it w t post] by simp
  qed
qed

theorem finalize_not_atomic_witness:
  "snd (snd (MoveFiles_process queue_rejects example_item example_fs)) \<noteq> []
   \<and> fst (MoveFiles_process queue_rejects example_item example_fs) = Inl AssertionError
   \<and> ''data/web_initial_octocat_Hello-World''
        \<notin> dirs (fst (snd (MoveFiles_process queue_rejects example_item example_fs)))
   \<and> files (fst (snd (MoveFiles_process queue_rejects example_item example_fs)))
        ''data/github-web_initial_octocat_Hello-World-0123456789-20210730-120000.github.17.warc.zst''
       = Some ''WARC''
   \<and> files (fst (snd (MoveFiles_process queue_rejects example_item example_fs)))
        ''data/web_initial_octocat_Hello-World/github-web_initial_octocat_Hello-World-0123456789-20210730-120000.warc.zst''
       = None"
  using finalize_not_atomic [of queue_rejects example_item example_fs "''WARC''" "''stats''" 500,
      THEN conjunct2]
  by (simp add: example_item_def example_fs_def queue_rejects_def path_defs lies_under_def new_item_def)

section \<open>The staging placeholder\<close>

lemma open_w_files:
  "open_w p s = Inr s' \<Longrightarrow> files s' = (files s)(p \<mapsto> []) \<and> dirs s' = dirs s"
  by (auto simp: open_w_def split: if_splits)

lemma PrepareDirectories_success:
  assumes "PrepareDirectories_process wp env it s = (Inr (), it', s')"
  shows "item_dir it' = dirname (data_dir it) (item_name it)
    \<and> warc_file_base it' =
        make_warc_file_base wp (sha1_hexdigest env) (strftime env) (item_name it)
    \<and> files s' (staged_warc_gz it') = Some []
    \<and> files s' (staged_data_txt it') = Some []
    \<and> item_dir it' \<in> dirs s'
    \<and> (\<forall>p. p \<noteq> staged_warc_gz it' \<and> p \<noteq> staged_data_txt it' \<longrightarrow>
          files s' p = (if isdir s (item_dir it') \<and> lies_under (item_dir it') p then None
                        else files s p))"
  using assms
  unfolding PrepareDirectories_process_def Let_def
  by (auto simp: path_defs makedirs_def rmtree_def isdir_def
      split: sum.splits if_splits list.splits prod.splits dest!: open_w_files)

lemma MoveFiles_success:
  assumes "fst (MoveFiles_process post it s) = Inr ()"
  shows "files s (staged_warc_zst it) \<noteq> None
    \<and> files (fst (snd (MoveFiles_process post it s))) (staged_warc_gz it) = None
    \<and> item_dir it \<notin> dirs (fst (snd (MoveFiles_process post it s)))
    \<and> (\<not> lies_under (item_dir it) (final_warc_zst it) \<longrightarrow>
         files (fst (snd (MoveFiles_process post it s))) (final_warc_zst it)
           = files s (staged_warc_zst it))"
  using assms staged_under [of it] final_zst_not_data_txt [of it]
  by (auto simp: MoveFiles_process_def rename_def rmtree_def
      split: sum.splits option.splits if_splits)


lemma fresh_staging_has_no_archive:
  assumes "PrepareDirectories_process wp env it_in s_in = (Inr (), it, s)"
    and "\<forall>p d. files s_in p \<noteq> None \<and> lies_under d p \<longrightarrow> d \<in> dirs s_in"
  shows "files s (staged_warc_zst it) = None"
proof -
  note h = PrepareDirectories_success [OF assms(1)]
  have "files s (staged_warc_zst it) =
      (if isdir s_in (item_dir it) \<and> lies_under (item_dir it) (staged_warc_zst it) then None
       else files s_in (staged_warc_zst it))"
    using h staged_paths_distinct [of it] by metis
  moreover have "files s_in (staged_warc_zst it) = None" if a: "\<not> isdir s_in (item_dir it)"
  proof (rule ccontr)
    assume b: "files s_in (staged_warc_zst it) \<noteq> None"
    from assms(2) b staged_under(2) [of it] have "item_dir it \<in> dirs s_in" by blast
    with a show False by (simp add: isdir_def)
  qed
  ultimately show ?thesis using staged_under(2) [of it] by simp
qed

text \<open>
  C9. The placeholder that staging creates is the empty file \<open>.warc.gz\<close>, and its path
  differs from the \<open>.warc.zst\<close> path that the finalizer renames. Straight after staging
  (on a file system where every file lies in existing directories) there is no
  \<open>.warc.zst\<close> file in the staging directory and the finalizer fails on its first rename
  without posting anything; when the finalizer succeeds, a \<open>.warc.zst\<close> file was there, it
  is the file found at the final path, and the placeholder is gone with the staging
  directory.
\<close>

theorem placeholder_never_finalized:
  "staged_warc_gz it \<noteq> staged_warc_zst it
   \<and> (PrepareDirectories_process wp env it_in s_in = (Inr (), it, s) \<longrightarrow>
        files s (staged_warc_gz it) = Some []
        \<and> ((\<forall>p d. files s_in p \<noteq> None \<and> lies_under d p \<longrightarrow> d \<in> dirs s_in) \<longrightarrow>
             files s (staged_warc_zst it) = None
             \<and> MoveFiles_process post (it\<lparr>dict_id := i, dict_project := pr\<rparr>) s
                 = (Inl FileNotFoundError, s, [])))
   \<and> (fst (MoveFiles_process post it s) = Inr () \<longrightarrow>
        files s (staged_warc_zst it) \<noteq> None
        \<and> files (fst (snd (MoveFiles_process post it s))) (staged_warc_gz it) = None
        \<and> item_dir it \<notin> dirs (fst (snd (MoveFiles_process post it s)))
        \<and> (\<not> lies_under (item_dir it) (final_warc_zst it) \<longrightarrow>
             files (fst (snd (MoveFiles_process post it s))) (final_warc_zst it)
               = files s (staged_warc_zst it)))"
proof (intro conjI)
  show "staged_warc_gz it \<noteq> staged_warc_zst it"
    by (rule staged_paths_distinct)
next
  show "PrepareDirectories_process wp env it_in s_in = (Inr (), it, s) \<longrightarrow>
        files s (staged_warc_gz it) = Some []
        \<and> ((\<forall>p d. files s_in p \<noteq> None \<and> lies_under d p \<longrightarrow> d \<in> dirs s_in) \<longrightarrow>
             files s (staged_warc_zst it) = None
             \<and> MoveFiles_process post (it\<lparr>dict_id := i, dict_project := pr\<rparr>) s
                 = (Inl FileNotFoundError, s, []))"
  proof
    assume p: "PrepareDirectories_process wp env it_in s_in = (Inr (), it, s)"
    have a: "files s (staged_warc_gz it) = Some []"
      using PrepareDirectories_success [OF p] by simp
    have b: "files s (staged_warc_zst it) = None
        \<and> MoveFiles_process post (it\<lparr>dict_id := i, dict_project := pr\<rparr>) s
            = (Inl FileNotFoundError, s, [])"
      if w: "\<forall>p d. files s_in p \<noteq> None \<and> lies_under d p \<longrightarrow> d \<in> dirs s_in"
    proof -
      have n: "files s (staged_warc_zst it) = None"
        using p w by (rule fresh_staging_has_no_archive)
      have "staged_warc_zst (it\<lparr>dict_id := i, dict_project := pr\<rparr>) = staged_warc_zst it"
        by (simp add: staged_warc_zst_def)
      then show ?thesis using n by (simp add: MoveFiles_process_def rename_def)
    qed
    show "files s (staged_warc_gz it) = Some []
        \<and> ((\<forall>p d. files s_in p \<noteq> None \<and> lies_under d p \<longrightarrow> d \<in> dirs s_in) \<longrightarrow>
             files s (staged_warc_zst it) = None
             \<and> MoveFiles_process post (it\<lparr>dict_id := i, dict_project := pr\<rparr>) s
                 = (Inl FileNotFoundError, s, []))"
      using a b by blast
  qed
next
  show "fst (MoveFiles_process post it s) = Inr () \<longrightarrow>
        files s (staged_warc_zst it) \<noteq> None
        \<and> files (fst (snd (MoveFiles_process post it s))) (staged_warc_gz it) = None
        \<and> item_dir it \<notin> dirs (fst (snd (MoveFiles_process post it s)))
        \<and> (\<not> lies_under (item_dir it) (final_warc_zst it) \<longrightarrow>
             files (fst (snd (MoveFiles_process post it s))) (final_warc_zst it)
               = files s (staged_warc_zst it))"
    using MoveFiles_success [of post it s] by blast
qed


theorem placeholder_never_finalized_witness:
  "PrepareDirectories_process ''github'' example_prepare_env fresh_item fresh_fs =
     (Inr (),
      example_item\<lparr>dict_id := [], dict_project := [], downloader := []\<rparr>,
      \<lparr>files = [staged_warc_gz example_item \<mapsto> [], staged_data_txt example_item \<mapsto> []],
       dirs = {''data/web_initial_octocat_Hello-World'', ''data''}\<rparr>)
   \<and> MoveFiles_process queue_accepts
        (example_item\<lparr>dict_id := [], dict_project := [], downloader := [],
                      dict_id := ''17'', dict_project := ''github''\<rparr>)
        \<lparr>files = [staged_warc_gz example_item \<mapsto> [], staged_data_txt example_item \<mapsto> []],
         dirs = {''data/web_initial_octocat_Hello-World'', ''data''}\<rparr>
       = (Inl FileNotFoundError,
          \<lparr>files = [staged_warc_gz example_item \<mapsto> [], staged_data_txt example_item \<mapsto> []],
           dirs = {''data/web_initial_octocat_Hello-World'', ''data''}\<rparr>, [])
   \<and> fst (MoveFiles_process queue_accepts example_item example_fs) = Inr ()
   \<and> files example_fs (staged_warc_zst example_item) = Some ''WARC''
   \<and> files (fst (snd (MoveFiles_process queue_accepts example_item example_fs)))
        (staged_warc_gz example_item) = None
   \<and> files (fst (snd (MoveFiles_process queue_accepts example_item example_fs)))
        (final_warc_zst example_item) = Some ''WARC''"
proof -
  have p: "PrepareDirectories_process ''github'' example_prepare_env fresh_item fresh_fs =
     (Inr (),
      example_item\<lparr>dict_id := [], dict_project := [], downloader := []\<rparr>,
      \<lparr>files = [staged_warc_gz example_item \<mapsto> [], staged_data_txt example_item \<mapsto> []],
       dirs = {''data/web_initial_octocat_Hello-World'', ''data''}\<rparr>)"
    by (simp add: PrepareDirectories_process_def Let_def example_prepare_env_def fresh_item_def
        fresh_fs_def example_item_def dirname_def escaped_item_name_map
        make_warc_file_base_def isdir_def makedirs_def open_w_def parent_path_def path_defs)
  have w: "\<forall>p d. files fresh_fs p \<noteq> None \<and> lies_under d p \<longrightarrow> d \<in> dirs fresh_fs"
    by (simp add: fresh_fs_def)
  have m: "fst (MoveFiles_process queue_accepts example_item example_fs) = Inr ()"
    by (simp add: MoveFiles_process_def rename_def rmtree_def example_item_def
        example_fs_def path_defs queue_accepts_def)
  have u: "\<not> lies_under (item_dir example_item) (final_warc_zst example_item)"
    by (simp add: lies_under_def example_item_def path_defs)
  have z: "files example_fs (staged_warc_zst example_item) = Some ''WARC''"
    by (simp add: example_fs_def example_item_def path_defs)
  note t1 = placeholder_never_finalized
    [where it = "example_item\<lparr>dict_id := [], dict_project := [], downloader := []\<rparr>"
       and wp = "''github''" and env = example_prepare_env and it_in = fresh_item
       and s_in = fresh_fs
       and s = "\<lparr>files = [staged_warc_gz example_item \<mapsto> [],
                         staged_data_txt example_item \<mapsto> []],
                 dirs = {''data/web_initial_octocat_Hello-World'', ''data''}\<rparr>"
       and post = queue_accepts and i = "''17''" and pr = "''github''"]
  note t2 = placeholder_never_finalized
    [where it = example_item and s = example_fs and post = queue_accepts]
  have e: "staged_warc_gz (example_item\<lparr>dict_id := [], dict_project := [], downloader := []\<rparr>)
        = staged_warc_gz example_item"
    "staged_warc_zst (example_item\<lparr>dict_id := [], dict_project := [], downloader := []\<rparr>)
        = staged_warc_zst example_item"
    by (simp_all add: path_defs)
  show ?thesis using p w m u z t1 [THEN conjunct2, THEN conjunct1] t2 [THEN conjunct2, THEN conjunct2]
    by (simp add: e)
qed

section \<open>Output basename\<close>

text \<open>
  C7. When the staging stage returns normally, the output basename it records for the item
  is the prefix, the sanitized identifier (each \<open>:\<close>, \<open>/\<close> and \<open>~\<close> replaced by an
  underscore) cut to its first 45 characters, the first 10 characters of the hexadecimal
  SHA-1 digest of the identifier, and the local timestamp, joined by \<open>-\<close>; the identifier is
  kept and both placeholder files are created under that basename. The basename is
  deterministic: any other normally returning run of the stage with the same prefix, the
  same identifier, the same timestamp and the same hash function records the same
  basename, whatever the file system, the item's other attributes and the clock service's
  answer.
\<close>

theorem staged_basename:
  assumes "PrepareDirectories_process warc_prefix env it s = (Inr (), it', s')"
  shows "warc_file_base it' =
       warc_prefix @ ''-''
       @ take 45 (map (\<lambda>c. if c = CHR '':'' \<or> c = CHR ''/'' \<or> c = CHR ''~''
                           then CHR ''_'' else c) (item_name it))
       @ ''-'' @ take 10 (sha1_hexdigest env (item_name it))
       @ ''-'' @ strftime env
   \<and> item_name it' = item_name it
   \<and> files s' (item_dir it' @ ''/'' @ warc_file_base it' @ ''.warc.gz'') = Some []
   \<and> files s' (item_dir it' @ ''/'' @ warc_file_base it' @ ''_data.txt'') = Some []
   \<and> (\<forall>env2 it2 s2 it2' s2'.
         PrepareDirectories_process warc_prefix env2 it2 s2 = (Inr (), it2', s2')
         \<and> item_name it2 = item_name it \<and> strftime env2 = strftime env
         \<and> sha1_hexdigest env2 = sha1_hexdigest env
       \<longrightarrow> warc_file_base it2' = warc_file_base it')"
proof -
  note h = PrepareDirectories_success [OF assms]
  have b: "warc_file_base it' =
      make_warc_file_base warc_prefix (sha1_hexdigest env) (strftime env) (item_name it)"
    using h by simp
  have n: "item_name it' = item_name it"
    using assms unfolding PrepareDirectories_process_def Let_def
    by (auto split: sum.splits if_splits list.splits prod.splits)
  have d: "warc_file_base it2' = warc_file_base it'"
    if "PrepareDirectories_process warc_prefix env2 it2 s2 = (Inr (), it2', s2')"
      and "item_name it2 = item_name it" and "strftime env2 = strftime env"
      and "sha1_hexdigest env2 = sha1_hexdigest env"
    for env2 it2 s2 it2' s2'
    using PrepareDirectories_success [OF that(1)] that(2,3,4) b by simp
  have c1: "warc_file_base it' =
       warc_prefix @ ''-''
       @ take 45 (map (\<lambda>c. if c = CHR '':'' \<or> c = CHR ''/'' \<or> c = CHR ''~''
                           then CHR ''_'' else c) (item_name it))
       @ ''-'' @ take 10 (sha1_hexdigest env (item_name it))
       @ ''-'' @ strftime env"
    unfolding b by (simp add: make_warc_file_base_def escaped_item_name_map)
  have c3: "files s' (item_dir it' @ ''/'' @ warc_file_base it' @ ''.warc.gz'') = Some []"
    using h unfolding staged_warc_gz_def by blast
  have c4: "files s' (item_dir it' @ ''/'' @ warc_file_base it' @ ''_data.txt'') = Some []"
    using h unfolding staged_data_txt_def by blast
  have c5: "\<forall>env2 it2 s2 it2' s2'.
         PrepareDirectories_process warc_prefix env2 it2 s2 = (Inr (), it2', s2')
         \<and> item_name it2 = item_name it \<and> strftime env2 = strftime env
         \<and> sha1_hexdigest env2 = sha1_hexdigest env
       \<longrightarrow> warc_file_base it2' = warc_file_base it'"
    using d by blast
  from c1 n c3 c4 c5 show ?thesis by (intro conjI)
qed


theorem staged_basename_witness:
  "PrepareDirectories_process ''github'' example_prepare_env fresh_item fresh_fs =
     (Inr (),
      example_item\<lparr>dict_id := [], dict_project := [], downloader := []\<rparr>,
      \<lparr>files = [staged_warc_gz example_item \<mapsto> [], staged_data_txt example_item \<mapsto> []],
       dirs = {''data/web_initial_octocat_Hello-World'', ''data''}\<rparr>)
   \<and> warc_file_base example_item
       = ''github-web_initial_octocat_Hello-World-0123456789-20210730-120000''
   \<and> fst (PrepareDirectories_process ''github''
          (example_prepare_env\<lparr>get_now := Inr (200, ''1627650000.25'')\<rparr>)
          (fresh_item\<lparr>data_dir := ''other''\<rparr>) fresh_fs) = Inr ()
   \<and> warc_file_base (fst (snd (PrepareDirectories_process ''github''
          (example_prepare_env\<lparr>get_now := Inr (200, ''1627650000.25'')\<rparr>)
          (fresh_item\<lparr>data_dir := ''other''\<rparr>) fresh_fs)))
       = ''github-web_initial_octocat_Hello-World-0123456789-20210730-120000''"
proof -
  let ?run2 = "PrepareDirectories_process ''github''
          (example_prepare_env\<lparr>get_now := Inr (200, ''1627650000.25'')\<rparr>)
          (fresh_item\<lparr>data_dir := ''other''\<rparr>) fresh_fs"
  have p: "PrepareDirectories_process ''github'' example_prepare_env fresh_item fresh_fs =
     (Inr (),
      example_item\<lparr>dict_id := [], dict_project := [], downloader := []\<rparr>,
      \<lparr>files = [staged_warc_gz example_item \<mapsto> [], staged_data_txt example_item \<mapsto> []],
       dirs = {''data/web_initial_octocat_Hello-World'', ''data''}\<rparr>)"
    by (simp add: PrepareDirectories_process_def Let_def example_prepare_env_def fresh_item_def
        fresh_fs_def example_item_def dirname_def escaped_item_name_map
        make_warc_file_base_def isdir_def makedirs_def open_w_def parent_path_def path_defs)
  have q: "fst ?run2 = Inr ()"
    by (simp add: PrepareDirectories_process_def Let_def example_prepare_env_def fresh_item_def
        fresh_fs_def dirname_def escaped_item_name_map
        make_warc_file_base_def isdir_def makedirs_def open_w_def parent_path_def path_defs)
  have q': "?run2 = (Inr (), fst (snd ?run2), snd (snd ?run2))"
    using q by (metis prod.collapse)
  note t = staged_basename [OF p]
  have b: "warc_file_base (example_item\<lparr>dict_id := [], dict_project := [], downloader := []\<rparr>)
      = ''github-web_initial_octocat_Hello-World-0123456789-20210730-120000''"
    using t [THEN conjunct1] by (simp add: example_prepare_env_def fresh_item_def)
  have "warc_file_base (fst (snd ?run2))
      = warc_file_base (example_item\<lparr>dict_id := [], dict_project := [], downloader := []\<rparr>)"
    using q' t [THEN conjunct2, THEN conjunct2, THEN conjunct2, THEN conjunct2, rule_format,
        of "example_prepare_env\<lparr>get_now := Inr (200, ''1627650000.25'')\<rparr>"
           "fresh_item\<lparr>data_dir := ''other''\<rparr>" fresh_fs
           "fst (snd ?run2)" "snd (snd ?run2)"]
    by (simp add: fresh_item_def)
  then show ?thesis using p q b by (simp add: example_item_def)
qed

section \<open>Target selection\<close>

lemma find_target_loop_unique:
  assumes "\<forall>c \<in> set cs. \<not> isl (probe_target env it c)"
    and "filter (\<lambda>c. probe_target env it c = Inr True) cs = [t]"
  shows "find_target_loop env it cs =
     (Inr (Some (str_replace '':downloader'' (downloader it) t)),
      takeWhile (\<lambda>c. c \<noteq> t) cs @ [t])"
  using assms
proof (induction cs)
  case Nil
  then show ?case by simp
next
  case (Cons c cs)
  from Cons.prems(1) obtain b where b: "probe_target env it c = Inr b"
    by (cases "probe_target env it c") auto
  show ?case
  proof (cases b)
    case True
    with b Cons.prems(2) have "c = t" by simp
    with b True show ?thesis by simp
  next
    case False
    with b Cons.prems(2) have f: "filter (\<lambda>c. probe_target env it c = Inr True) cs = [t]"
      by simp
    have "t \<in> set (filter (\<lambda>c. probe_target env it c = Inr True) cs)"
      using f by simp
    then have "probe_target env it t = Inr True" by simp
    with b False have "c \<noteq> t" by auto
    moreover have "find_target_loop env it cs =
        (Inr (Some (str_replace '':downloader'' (downloader it) t)),
         takeWhile (\<lambda>c. c \<noteq> t) cs @ [t])"
      using Cons.IH Cons.prems(1) f by simp
    ultimately show ?thesis using b False by simp
  qed
qed

lemma filter_permuted_single:
  assumes "mset ys = mset xs" and "filter P xs = [t]"
  shows "filter P ys = [t]"
proof -
  have "mset (filter P ys) = mset (filter P xs)"
    using assms(1) by simp
  then have "mset (filter P ys) = {#t#}" using assms(2) by simp
  then show ?thesis by (metis mset_single_iff_right) 
qed

text \<open>
  C2. When the tracker's list holds exactly one candidate whose probe accepts and no
  candidate's probe raises (domain extraction, size lookup and request included), then
  for every order the shuffle produces \<open>find_target\<close> returns that candidate with each
  \<open>:downloader\<close> replaced by the item's downloader. The candidates tried are those
  before it in the shuffled order and then the candidate itself: the search stops there.
  Such a list is not empty.
\<close>

theorem find_target_selects_acceptor:
  assumes "upload_targets env = Inr targets"
    and "mset (shuffle env targets) = mset targets"
    and "\<forall>c \<in> set targets. \<not> isl (probe_target env it c)"
    and "filter (\<lambda>c. probe_target env it c = Inr True) targets = [t]"
  shows "targets \<noteq> []
    \<and> find_target env it =
       (Inr (Some (str_replace '':downloader'' (downloader it) t)),
        takeWhile (\<lambda>c. c \<noteq> t) (shuffle env targets) @ [t])"
proof -
  have s: "set (shuffle env targets) = set targets"
    using assms(2) by (rule mset_eq_setD)
  have "filter (\<lambda>c. probe_target env it c = Inr True) (shuffle env targets) = [t]"
    using assms(2,4) by (rule filter_permuted_single)
  then have "find_target_loop env it (shuffle env targets) =
       (Inr (Some (str_replace '':downloader'' (downloader it) t)),
        takeWhile (\<lambda>c. c \<noteq> t) (shuffle env targets) @ [t])"
    using assms(3) s by (intro find_target_loop_unique) simp_all
  moreover have "targets \<noteq> []" using assms(4) by auto
  ultimately show ?thesis using assms(1) by (simp add: find_target_def)
qed

theorem find_target_selects_acceptor_witness:
  "find_target example_upload_env example_item =
     (Inr (Some ''rsync://b.example.org:873/github/bob/''),
      [''rsync://c.example.org/github/:downloader/'',
       ''rsync://b.example.org:873/github/:downloader/''])"
proof -
  have p: "\<forall>c \<in> set example_targets. \<not> isl (probe_target example_upload_env example_item c)"
    by (simp add: example_targets_def probe_target_def target_domain_def example_upload_env_def)
  have f: "filter (\<lambda>c. probe_target example_upload_env example_item c = Inr True) example_targets
      = [''rsync://b.example.org:873/github/:downloader/'']"
    by (simp add: example_targets_def probe_target_def target_domain_def example_upload_env_def)
  have u: "upload_targets example_upload_env = Inr example_targets"
    by (simp add: example_upload_env_def)
  have m: "mset (shuffle example_upload_env example_targets) = mset example_targets"
    by (simp add: example_upload_env_def)
  show ?thesis
    using find_target_selects_acceptor [OF u m p f]
    by (simp add: example_upload_env_def example_targets_def example_item_def)
qed

section \<open>The uploader's retry loop\<close>

lemma process_cases:
  "ChooseTargetAndUpload_process env it st =
     (if attempt_succeeds env it then complete_item st else retry st)"
  by (simp add: ChooseTargetAndUpload_process_def attempt_succeeds_def
      split: sum.splits option.splits)

lemma find_target_loop_raises:
  assumes "\<forall>x \<in> set pre. probe_target env it x = Inr False"
    and "probe_target env it c = Inl e"
  shows "fst (find_target_loop env it (pre @ c # post)) = Inl e"
  using assms by (induction pre) (auto split: prod.splits)

lemma find_target_loop_none:
  assumes "\<forall>x \<in> set cs. probe_target env it x = Inr False"
  shows "fst (find_target_loop env it cs) = Inr None"
  using assms by (induction cs) (auto split: prod.splits)

lemma run_all_fail:
  assumes "\<forall>k \<le> n. \<not> attempt_succeeds (envs k) it"
  shows "run envs it n = \<lparr>status = Running, timeouts = [(10, Process)], now = 10 * n\<rparr>"
  using assms
proof (induction n)
  case 0
  then show ?case by (simp add: enqueue_def process_cases retry_def retry_sleep_def)
next
  case (Suc n)
  then have "run envs it n = \<lparr>status = Running, timeouts = [(10, Process)], now = 10 * n\<rparr>"
    by simp
  moreover have "\<not> attempt_succeeds (envs (Suc n)) it" using Suc.prems by simp
  ultimately show ?case by (simp add: process_cases retry_def retry_sleep_def)
qed

lemma run_first_success:
  assumes "\<forall>k < n. \<not> attempt_succeeds (envs k) it" and "attempt_succeeds (envs n) it"
  shows "run envs it n = \<lparr>status = Completed, timeouts = [], now = 10 * n\<rparr>"
proof (cases n)
  case 0
  then show ?thesis using assms(2) by (simp add: enqueue_def process_cases complete_item_def)
next
  case (Suc j)
  then have "\<forall>k \<le> j. \<not> attempt_succeeds (envs k) it" using assms(1) by simp
  then have "run envs it j = \<lparr>status = Running, timeouts = [(10, Process)], now = 10 * j\<rparr>"
    by (rule run_all_fail)
  then show ?thesis using Suc assms(2) by (simp add: process_cases complete_item_def)
qed

lemma run_after_success:
  assumes "\<forall>k < n. \<not> attempt_succeeds (envs k) it" and "attempt_succeeds (envs n) it"
  shows "run envs it (n + d) = \<lparr>status = Completed, timeouts = [], now = 10 * n\<rparr>"
  using run_first_success [OF assms] by (induction d) simp_all

text \<open>
  C3. In one attempt, if the tracker request raises, or a probe that is reached raises, or
  every candidate declines (an empty list included), or the transfer to the selected
  target fails, then \<open>process\<close> returns with one timeout added to the event loop, after
  10 seconds, whose callback is \<open>process\<close> for the same item; nothing else changes. No
  attempt sets the status to failed. Run by the event loop, as long as attempts fail the
  item stays running with that one timeout pending, after \<open>n\<close> firings at time \<open>10 * n\<close>;
  the first attempt that succeeds completes the item and leaves no timeout.
\<close>

theorem uploader_retries_forever:
  "(upload_targets env = Inl e
      \<or> (upload_targets env = Inr targets \<and> shuffle env targets = pre @ c # post
          \<and> (\<forall>x \<in> set pre. probe_target env it x = Inr False)
          \<and> probe_target env it c = Inl e)
      \<or> (upload_targets env = Inr targets
          \<and> (\<forall>x \<in> set (shuffle env targets). probe_target env it x = Inr False))
      \<or> (fst (find_target env it) = Inr (Some target)
          \<and> \<not> rsync_upload env target [final_warc_zst it, final_data_txt it])
    \<longrightarrow> \<not> attempt_succeeds env it
        \<and> ChooseTargetAndUpload_process env it st
            = st\<lparr>timeouts := timeouts st @ [(10, Process)]\<rparr>)
   \<and> (status st \<noteq> Failed \<longrightarrow> status (ChooseTargetAndUpload_process env it st) \<noteq> Failed)
   \<and> ((\<forall>k \<le> n. \<not> attempt_succeeds (envs k) it) \<longrightarrow>
        run envs it n = \<lparr>status = Running, timeouts = [(10, Process)], now = 10 * n\<rparr>)
   \<and> ((\<forall>k < n. \<not> attempt_succeeds (envs k) it) \<and> attempt_succeeds (envs n) it \<longrightarrow>
        run envs it (n + d) = \<lparr>status = Completed, timeouts = [], now = 10 * n\<rparr>)"
proof (intro conjI)
  show "upload_targets env = Inl e
      \<or> (upload_targets env = Inr targets \<and> shuffle env targets = pre @ c # post
          \<and> (\<forall>x \<in> set pre. probe_target env it x = Inr False)
          \<and> probe_target env it c = Inl e)
      \<or> (upload_targets env = Inr targets
          \<and> (\<forall>x \<in> set (shuffle env targets). probe_target env it x = Inr False))
      \<or> (fst (find_target env it) = Inr (Some target)
          \<and> \<not> rsync_upload env target [final_warc_zst it, final_data_txt it])
    \<longrightarrow> \<not> attempt_succeeds env it
        \<and> ChooseTargetAndUpload_process env it st
            = st\<lparr>timeouts := timeouts st @ [(10, Process)]\<rparr>"
  proof
    assume "upload_targets env = Inl e
      \<or> (upload_targets env = Inr targets \<and> shuffle env targets = pre @ c # post
          \<and> (\<forall>x \<in> set pre. probe_target env it x = Inr False)
          \<and> probe_target env it c = Inl e)
      \<or> (upload_targets env = Inr targets
          \<and> (\<forall>x \<in> set (shuffle env targets). probe_target env it x = Inr False))
      \<or> (fst (find_target env it) = Inr (Some target)
          \<and> \<not> rsync_upload env target [final_warc_zst it, final_data_txt it])"
    then consider
        (discovery) "upload_targets env = Inl e"
      | (probe) "upload_targets env = Inr targets" "shuffle env targets = pre @ c # post"
          "\<forall>x \<in> set pre. probe_target env it x = Inr False" "probe_target env it c = Inl e"
      | (none) "upload_targets env = Inr targets"
          "\<forall>x \<in> set (shuffle env targets). probe_target env it x = Inr False"
      | (transfer) "fst (find_target env it) = Inr (Some target)"
          "\<not> rsync_upload env target [final_warc_zst it, final_data_txt it]"
      by blast
    then have "\<not> attempt_succeeds env it"
    proof cases
      case discovery
      then show ?thesis by (simp add: attempt_succeeds_def find_target_def)
    next
      case probe
      then have "fst (find_target env it) = Inl e"
        using find_target_loop_raises [of pre env it c e post] by (simp add: find_target_def)
      then show ?thesis by (simp add: attempt_succeeds_def)
    next
      case none
      then have "fst (find_target env it) = Inr None"
        using find_target_loop_none [of "shuffle env targets" env it]
        by (simp add: find_target_def)
      then show ?thesis by (simp add: attempt_succeeds_def)
    next
      case transfer
      then show ?thesis by (simp add: attempt_succeeds_def)
    qed
    then show "\<not> attempt_succeeds env it
        \<and> ChooseTargetAndUpload_process env it st
            = st\<lparr>timeouts := timeouts st @ [(10, Process)]\<rparr>"
      by (simp add: process_cases retry_def retry_sleep_def)
  qed
next
  show "status st \<noteq> Failed \<longrightarrow> status (ChooseTargetAndUpload_process env it st) \<noteq> Failed"
    by (simp add: process_cases retry_def complete_item_def)
next
  show "(\<forall>k \<le> n. \<not> attempt_succeeds (envs k) it) \<longrightarrow>
        run envs it n = \<lparr>status = Running, timeouts = [(10, Process)], now = 10 * n\<rparr>"
    using run_all_fail [of n envs it] by blast
next
  show "(\<forall>k < n. \<not> attempt_succeeds (envs k) it) \<and> attempt_succeeds (envs n) it \<longrightarrow>
        run envs it (n + d) = \<lparr>status = Completed, timeouts = [], now = 10 * n\<rparr>"
    using run_after_success [of n envs it d] by blast
qed


lemmas example_env_defs = example_upload_env_def tracker_down_env_def all_reject_env_def
  probe_timeout_env_def transfer_fails_env_def example_targets_def

theorem uploader_retries_forever_witness:
  "ChooseTargetAndUpload_process tracker_down_env example_item
       \<lparr>status = Running, timeouts = [], now = 0\<rparr>
     = \<lparr>status = Running, timeouts = [(10, Process)], now = 0\<rparr>
   \<and> ChooseTargetAndUpload_process probe_timeout_env example_item
       \<lparr>status = Running, timeouts = [], now = 0\<rparr>
     = \<lparr>status = Running, timeouts = [(10, Process)], now = 0\<rparr>
   \<and> ChooseTargetAndUpload_process all_reject_env example_item
       \<lparr>status = Running, timeouts = [], now = 0\<rparr>
     = \<lparr>status = Running, timeouts = [(10, Process)], now = 0\<rparr>
   \<and> ChooseTargetAndUpload_process transfer_fails_env example_item
       \<lparr>status = Running, timeouts = [], now = 0\<rparr>
     = \<lparr>status = Running, timeouts = [(10, Process)], now = 0\<rparr>
   \<and> run example_envs example_item 1
     = \<lparr>status = Running, timeouts = [(10, Process)], now = 10\<rparr>
   \<and> run example_envs example_item 5 = \<lparr>status = Completed, timeouts = [], now = 20\<rparr>"
proof -
  let ?st = "\<lparr>status = Running, timeouts = [], now = 0\<rparr>"
  have a: "upload_targets tracker_down_env = Inl RequestException"
    by (simp add: example_env_defs)
  have b: "upload_targets probe_timeout_env = Inr example_targets
      \<and> shuffle probe_timeout_env example_targets
          = [] @ ''rsync://c.example.org/github/:downloader/''
              # [''rsync://b.example.org:873/github/:downloader/'',
                 ''rsync://a.example.org/github/:downloader/'']
      \<and> (\<forall>x \<in> set []. probe_target probe_timeout_env example_item x = Inr False)
      \<and> probe_target probe_timeout_env example_item
          ''rsync://c.example.org/github/:downloader/'' = Inl RequestException"
    by (simp add: example_env_defs probe_target_def target_domain_def)
  have c: "upload_targets all_reject_env = Inr example_targets
      \<and> (\<forall>x \<in> set (shuffle all_reject_env example_targets).
            probe_target all_reject_env example_item x = Inr False)"
    by (simp add: example_env_defs probe_target_def target_domain_def)
  have d: "fst (find_target transfer_fails_env example_item)
        = Inr (Some ''rsync://b.example.org:873/github/bob/'')
      \<and> \<not> rsync_upload transfer_fails_env ''rsync://b.example.org:873/github/bob/''
            [final_warc_zst example_item, final_data_txt example_item]"
    by (simp add: example_env_defs find_target_def probe_target_def target_domain_def
        example_item_def)
  have f0: "\<not> attempt_succeeds (example_envs 0) example_item"
    by (simp add: example_envs_def example_env_defs attempt_succeeds_def find_target_def)
  have f1: "\<not> attempt_succeeds (example_envs 1) example_item"
    by (simp add: example_envs_def example_env_defs attempt_succeeds_def find_target_def
        probe_target_def target_domain_def)
  have f2: "attempt_succeeds (example_envs 2) example_item"
    by (simp add: example_envs_def example_env_defs attempt_succeeds_def find_target_def
        probe_target_def target_domain_def)
  have le1: "\<forall>k \<le> 1. \<not> attempt_succeeds (example_envs k) example_item"
    using f0 f1 by (auto simp: le_Suc_eq)
  have lt2: "\<forall>k < 2. \<not> attempt_succeeds (example_envs k) example_item"
    using f0 f1 less_2_cases by auto
  note t = uploader_retries_forever [where it = example_item and st = ?st]
  have 1: "ChooseTargetAndUpload_process tracker_down_env example_item ?st
      = ?st\<lparr>timeouts := timeouts ?st @ [(10, Process)]\<rparr>"
    using a t [where env = tracker_down_env and e = RequestException, THEN conjunct1]
    by blast
  have 2: "ChooseTargetAndUpload_process probe_timeout_env example_item ?st
      = ?st\<lparr>timeouts := timeouts ?st @ [(10, Process)]\<rparr>"
    using b t [where env = probe_timeout_env and e = RequestException
        and targets = example_targets and pre = "[]"
        and c = "''rsync://c.example.org/github/:downloader/''"
        and post = "[''rsync://b.example.org:873/github/:downloader/'',
                 ''rsync://a.example.org/github/:downloader/'']", THEN conjunct1]
    by blast
  have 3: "ChooseTargetAndUpload_process all_reject_env example_item ?st
      = ?st\<lparr>timeouts := timeouts ?st @ [(10, Process)]\<rparr>"
    using c t [where env = all_reject_env and targets = example_targets, THEN conjunct1]
    by blast
  have 4: "ChooseTargetAndUpload_process transfer_fails_env example_item ?st
      = ?st\<lparr>timeouts := timeouts ?st @ [(10, Process)]\<rparr>"
    using d t [where env = transfer_fails_env
        and target = "''rsync://b.example.org:873/github/bob/''", THEN conjunct1]
    by blast
  have 5: "run example_envs example_item 1
      = \<lparr>status = Running, timeouts = [(10, Process)], now = 10 * 1\<rparr>"
    using le1 t [where envs = example_envs and n = 1] by blast
  have 6: "run example_envs example_item (2 + 3)
      = \<lparr>status = Completed, timeouts = [], now = 10 * 2\<rparr>"
    using lt2 f2 t [where envs = example_envs and n = 2 and d = 3] by blast
  show ?thesis using 1 2 3 4 5 6 by simp
qed

section \<open>The dictionary cache\<close>

text \<open>
  C4. A cached record younger than 1800 seconds is returned as it is, the class state is
  unchanged and no request is made. When the cache is stale and the metadata endpoint
  answers successfully with the id of the cached record, the cached record is returned as
  it is, only \<open>created\<close> is set to the current time, and the metadata request is the only
  request made: the payload is not downloaded.
\<close>

theorem cached_dict_reused:
  "(data z = Some d \<and> time_check env - created z < 1800 \<longrightarrow>
      get_dict env z = (Inr d, z, []))
   \<and> (data z = Some d \<and> \<not> time_check env - created z < 1800
        \<and> get_dictionary env = Inr r \<and> raise_for_status r = Inr ()
        \<and> json r = Inr resp \<and> resp ''id'' = Some (id' d) \<longrightarrow>
      get_dict env z = (Inr d, z\<lparr>created := time_store env\<rparr>, [GetDictionary]))"
  by (simp add: get_dict_def refresh_dict_def getitem_def)

theorem cached_dict_reused_witness:
  "get_dict (example_dict_env 1627647000 ''18'' ''9f2c'' 200) example_cache
     = (Inr \<lparr>id' = ''17'', dict = ''OLD-DICT''\<rparr>, example_cache, [])
   \<and> get_dict (example_dict_env 1627649000 ''17'' ''9f2c'' 200) example_cache
     = (Inr \<lparr>id' = ''17'', dict = ''OLD-DICT''\<rparr>,
        example_cache\<lparr>created := 1627649001\<rparr>, [GetDictionary])"
  using cached_dict_reused
      [where z = example_cache and d = "\<lparr>id' = ''17'', dict = ''OLD-DICT''\<rparr>"
         and env = "example_dict_env 1627647000 ''18'' ''9f2c'' 200", THEN conjunct1]
    cached_dict_reused
      [where z = example_cache and d = "\<lparr>id' = ''17'', dict = ''OLD-DICT''\<rparr>"
         and env = "example_dict_env 1627649000 ''17'' ''9f2c'' 200"
         and r = "\<lparr>status_code = 200, content = [],
             json = Inr [''id'' \<mapsto> ''17'', ''url'' \<mapsto> ''https://legacy-api.arpa.li/dict/new'',
                         ''sha256'' \<mapsto> ''9f2c'']\<rparr>"
         and resp = "[''id'' \<mapsto> ''17'', ''url'' \<mapsto> ''https://legacy-api.arpa.li/dict/new'',
                         ''sha256'' \<mapsto> ''9f2c'']", THEN conjunct2]
  by (simp add: example_cache_def example_dict_env_def raise_for_status_def)

lemma download_dict_fail:
  "download_dict env resp z = (Inl e, z', reqs) \<Longrightarrow> z' = z"
  by (auto simp: download_dict_def Let_def split: sum.splits if_splits)

lemma refresh_dict_fail:
  "refresh_dict env z = (Inl e, z', reqs) \<Longrightarrow> z' = z"
  by (auto simp: refresh_dict_def split: sum.splits option.splits if_splits prod.splits
      dest: download_dict_fail)

lemma get_dict_fail:
  "get_dict env z = (Inl e, z', reqs) \<Longrightarrow> z' = z"
  by (auto simp: get_dict_def split: option.splits if_splits dest: refresh_dict_fail)


lemma download_dict_stores:
  assumes "download_dict env resp z = (res, z', reqs)" and "data z' \<noteq> data z"
  shows "\<exists>url rd d'. resp ''url'' = Some url \<and> get_url env url = Inr rd
      \<and> raise_for_status rd = Inr ()
      \<and> resp ''sha256'' = Some (sha256_hexdigest env (content rd))
      \<and> res = Inr d' \<and> data z' = Some d'"
  using assms
  by (auto simp: download_dict_def Let_def getitem_def
      split: sum.splits if_splits option.splits)

lemma refresh_dict_stores:
  assumes "refresh_dict env z = (res, z', reqs)" and "data z' \<noteq> data z"
  shows "\<exists>r resp url rd d'. get_dictionary env = Inr r \<and> json r = Inr resp
      \<and> resp ''url'' = Some url \<and> get_url env url = Inr rd
      \<and> raise_for_status rd = Inr ()
      \<and> resp ''sha256'' = Some (sha256_hexdigest env (content rd))
      \<and> res = Inr d' \<and> data z' = Some d'"
proof -
  obtain r resp res0 reqs0 where g: "get_dictionary env = Inr r" "json r = Inr resp"
    and d: "download_dict env resp z = (res0, z', reqs0)" and e: "res = res0"
    using assms
    by (auto simp: refresh_dict_def split: sum.splits option.splits if_splits prod.splits)
  from download_dict_stores [OF d assms(2)] g e show ?thesis by blast
qed

lemma get_dict_stores:
  assumes "get_dict env z = (res, z', reqs)" and "data z' \<noteq> data z"
  shows "\<exists>r resp url rd d'. get_dictionary env = Inr r \<and> json r = Inr resp
      \<and> resp ''url'' = Some url \<and> get_url env url = Inr rd
      \<and> raise_for_status rd = Inr ()
      \<and> resp ''sha256'' = Some (sha256_hexdigest env (content rd))
      \<and> res = Inr d' \<and> data z' = Some d'"
proof -
  have "refresh_dict env z = (res, z', reqs)"
    using assms by (auto simp: get_dict_def split: option.splits if_splits)
  then show ?thesis using assms(2) by (rule refresh_dict_stores)
qed

lemma get_dict_metadata_error:
  assumes "data z = None \<or> \<not> time_check env - created z < 1800"
    and "get_dictionary env = Inr r"
    and "400 \<le> status_code r \<and> status_code r < 600"
  shows "get_dict env z = (Inl HTTPError, z, [GetDictionary])"
  using assms
  by (auto simp: get_dict_def refresh_dict_def raise_for_status_def split: option.splits)

lemma get_dict_reaches_download:
  assumes "data z = None
      \<or> (\<not> time_check env - created z < 1800 \<and> data z = Some d
          \<and> resp ''id'' = Some i \<and> i \<noteq> id' d)"
    and "get_dictionary env = Inr r"
    and "raise_for_status r = Inr ()"
    and "json r = Inr resp"
  shows "get_dict env z =
     (case download_dict env resp z of (res, z', reqs) \<Rightarrow> (res, z', GetDictionary # reqs))"
  using assms
  by (auto simp: get_dict_def refresh_dict_def getitem_def split: option.splits)

text \<open>
  C5, as claimed: an unsuccessful HTTP status makes \<open>get_dict\<close> fail and leaves the cache
  as it was. \<open>raise_for_status\<close> raises for the statuses 400 to 599 only: when the
  download answers 300 with a payload of the advertised digest, \<open>get_dict\<close> returns the new
  record and has replaced the cached record 17 and its timestamp.
\<close>

theorem dict_status_300_counterexample:
  "get_dict (example_dict_env 1627649000 ''18'' ''9f2c'' 300) example_cache
     = (Inr \<lparr>id' = ''18'', dict = ''NEW-DICT''\<rparr>,
        \<lparr>created = 1627649001, data = Some \<lparr>id' = ''18'', dict = ''NEW-DICT''\<rparr>\<rparr>,
        [GetDictionary, GetUrl ''https://legacy-api.arpa.li/dict/new''])
   \<and> data example_cache = Some \<lparr>id' = ''17'', dict = ''OLD-DICT''\<rparr>"
  by (simp add: get_dict_def refresh_dict_def download_dict_def Let_def getitem_def
      raise_for_status_def example_cache_def example_dict_env_def zstd_magic_def)

text \<open>
  C5, amended. Whenever \<open>get_dict\<close> raises, the cached record and its timestamp are as
  before the call. It raises \<open>HTTPError\<close> when the metadata request or the download answers
  with a status from 400 to 599, and \<open>ValueError\<close> when the SHA-256 digest of the
  downloaded payload differs from the advertised one. Whenever the cached record changes,
  the call returned the new record and the downloaded payload had the advertised digest.
\<close>

theorem dict_failure_leaves_cache:
  "(get_dict env z = (Inl e, z', reqs) \<longrightarrow> z' = z)
   \<and> ((data z = None \<or> \<not> time_check env - created z < 1800)
        \<and> get_dictionary env = Inr r
        \<and> 400 \<le> status_code r \<and> status_code r < 600 \<longrightarrow>
      get_dict env z = (Inl HTTPError, z, [GetDictionary]))
   \<and> ((data z = None
          \<or> (\<not> time_check env - created z < 1800 \<and> data z = Some d
              \<and> resp ''id'' = Some i \<and> i \<noteq> id' d))
        \<and> get_dictionary env = Inr r \<and> raise_for_status r = Inr ()
        \<and> json r = Inr resp \<and> resp ''url'' = Some url \<and> get_url env url = Inr rd
        \<and> ((400 \<le> status_code rd \<and> status_code rd < 600)
            \<or> (resp ''sha256'' = Some h \<and> sha256_hexdigest env (content rd) \<noteq> h)) \<longrightarrow>
      get_dict env z =
        (Inl (if 400 \<le> status_code rd \<and> status_code rd < 600 then HTTPError else ValueError),
         z, [GetDictionary, GetUrl url]))
   \<and> (get_dict env z = (res, z', reqs) \<and> data z' \<noteq> data z \<longrightarrow>
        (\<exists>r resp url rd d'. get_dictionary env = Inr r \<and> json r = Inr resp
           \<and> resp ''url'' = Some url \<and> get_url env url = Inr rd
           \<and> raise_for_status rd = Inr ()
           \<and> resp ''sha256'' = Some (sha256_hexdigest env (content rd))
           \<and> res = Inr d' \<and> data z' = Some d'))"
proof (intro conjI)
  show "get_dict env z = (Inl e, z', reqs) \<longrightarrow> z' = z"
    using get_dict_fail by blast
next
  show "(data z = None \<or> \<not> time_check env - created z < 1800)
        \<and> get_dictionary env = Inr r
        \<and> 400 \<le> status_code r \<and> status_code r < 600 \<longrightarrow>
      get_dict env z = (Inl HTTPError, z, [GetDictionary])"
    using get_dict_metadata_error [of z env r] by blast
next
  show "(data z = None
          \<or> (\<not> time_check env - created z < 1800 \<and> data z = Some d
              \<and> resp ''id'' = Some i \<and> i \<noteq> id' d))
        \<and> get_dictionary env = Inr r \<and> raise_for_status r = Inr ()
        \<and> json r = Inr resp \<and> resp ''url'' = Some url \<and> get_url env url = Inr rd
        \<and> ((400 \<le> status_code rd \<and> status_code rd < 600)
            \<or> (resp ''sha256'' = Some h \<and> sha256_hexdigest env (content rd) \<noteq> h)) \<longrightarrow>
      get_dict env z =
        (Inl (if 400 \<le> status_code rd \<and> status_code rd < 600 then HTTPError else ValueError),
         z, [GetDictionary, GetUrl url])"
  proof
    assume a: "(data z = None
          \<or> (\<not> time_check env - created z < 1800 \<and> data z = Some d
              \<and> resp ''id'' = Some i \<and> i \<noteq> id' d))
        \<and> get_dictionary env = Inr r \<and> raise_for_status r = Inr ()
        \<and> json r = Inr resp \<and> resp ''url'' = Some url \<and> get_url env url = Inr rd
        \<and> ((400 \<le> status_code rd \<and> status_code rd < 600)
            \<or> (resp ''sha256'' = Some h \<and> sha256_hexdigest env (content rd) \<noteq> h))"
    then have g: "get_dict env z =
        (case download_dict env resp z of (res, z', reqs) \<Rightarrow> (res, z', GetDictionary # reqs))"
      using get_dict_reaches_download [of z env d resp i r] by blast
    have "download_dict env resp z =
        (Inl (if 400 \<le> status_code rd \<and> status_code rd < 600 then HTTPError else ValueError),
         z, [GetUrl url])"
      using a by (auto simp: download_dict_def getitem_def raise_for_status_def)
    then show "get_dict env z =
        (Inl (if 400 \<le> status_code rd \<and> status_code rd < 600 then HTTPError else ValueError),
         z, [GetDictionary, GetUrl url])"
      using g by simp
  qed
next
  show "get_dict env z = (res, z', reqs) \<and> data z' \<noteq> data z \<longrightarrow>
        (\<exists>r resp url rd d'. get_dictionary env = Inr r \<and> json r = Inr resp
           \<and> resp ''url'' = Some url \<and> get_url env url = Inr rd
           \<and> raise_for_status rd = Inr ()
           \<and> resp ''sha256'' = Some (sha256_hexdigest env (content rd))
           \<and> res = Inr d' \<and> data z' = Some d')"
    using get_dict_stores [of env z res z' reqs] by blast
qed


theorem dict_failure_leaves_cache_witness:
  "get_dict (example_dict_env 1627649000 ''18'' ''ffff'' 200) example_cache
     = (Inl ValueError, example_cache,
        [GetDictionary, GetUrl ''https://legacy-api.arpa.li/dict/new''])
   \<and> get_dict (example_dict_env 1627649000 ''18'' ''9f2c'' 404) example_cache
     = (Inl HTTPError, example_cache,
        [GetDictionary, GetUrl ''https://legacy-api.arpa.li/dict/new''])
   \<and> get_dict
        ((example_dict_env 1627649000 ''18'' ''9f2c'' 200)
           \<lparr>get_dictionary := Inr \<lparr>status_code = 503, content = [], json = Inl JSONDecodeError\<rparr>\<rparr>)
        example_cache
     = (Inl HTTPError, example_cache, [GetDictionary])
   \<and> (\<exists>url. get_url (example_dict_env 1627649000 ''18'' ''9f2c'' 200) url
          = Inr \<lparr>status_code = 200, content = ''NEW-DICT'', json = Inl JSONDecodeError\<rparr>
        \<and> sha256_hexdigest (example_dict_env 1627649000 ''18'' ''9f2c'' 200) ''NEW-DICT''
            = ''9f2c''
        \<and> fst (get_dict (example_dict_env 1627649000 ''18'' ''9f2c'' 200) example_cache)
            = Inr \<lparr>id' = ''18'', dict = ''NEW-DICT''\<rparr>)"
proof -
  let ?d = "\<lparr>id' = ''17'', dict = ''OLD-DICT''\<rparr>"
  let ?rd = "\<lambda>code. \<lparr>status_code = code, content = ''NEW-DICT'', json = Inl JSONDecodeError\<rparr>"
  let ?resp = "\<lambda>digest. [''id'' \<mapsto> ''18'', ''url'' \<mapsto> ''https://legacy-api.arpa.li/dict/new'',
                         ''sha256'' \<mapsto> digest]"
  let ?r = "\<lambda>digest. \<lparr>status_code = 200, content = [], json = Inr (?resp digest)\<rparr>"
  note t = dict_failure_leaves_cache [where z = example_cache and d = ?d and i = "''18''"
      and url = "''https://legacy-api.arpa.li/dict/new''"]
  have 1: "get_dict (example_dict_env 1627649000 ''18'' ''ffff'' 200) example_cache
     = (Inl ValueError, example_cache,
        [GetDictionary, GetUrl ''https://legacy-api.arpa.li/dict/new''])"
    using t [where env = "example_dict_env 1627649000 ''18'' ''ffff'' 200"
        and r = "?r ''ffff''" and resp = "?resp ''ffff''" and rd = "?rd 200" and h = "''ffff''",
        THEN conjunct2, THEN conjunct2, THEN conjunct1]
    by (simp add: example_cache_def example_dict_env_def raise_for_status_def)
  have 2: "get_dict (example_dict_env 1627649000 ''18'' ''9f2c'' 404) example_cache
     = (Inl HTTPError, example_cache,
        [GetDictionary, GetUrl ''https://legacy-api.arpa.li/dict/new''])"
    using t [where env = "example_dict_env 1627649000 ''18'' ''9f2c'' 404"
        and r = "?r ''9f2c''" and resp = "?resp ''9f2c''" and rd = "?rd 404" and h = "''9f2c''",
        THEN conjunct2, THEN conjunct2, THEN conjunct1]
    by (simp add: example_cache_def example_dict_env_def raise_for_status_def)
  have 3: "get_dict
        ((example_dict_env 1627649000 ''18'' ''9f2c'' 200)
           \<lparr>get_dictionary := Inr \<lparr>status_code = 503, content = [], json = Inl JSONDecodeError\<rparr>\<rparr>)
        example_cache
     = (Inl HTTPError, example_cache, [GetDictionary])"
    using t [where env = "(example_dict_env 1627649000 ''18'' ''9f2c'' 200)
           \<lparr>get_dictionary := Inr \<lparr>status_code = 503, content = [], json = Inl JSONDecodeError\<rparr>\<rparr>"
        and r = "\<lparr>status_code = 503, content = [], json = Inl JSONDecodeError\<rparr>",
        THEN conjunct2, THEN conjunct1]
    by (simp add: example_cache_def example_dict_env_def)
  have g: "get_dict (example_dict_env 1627649000 ''18'' ''9f2c'' 200) example_cache
     = (Inr \<lparr>id' = ''18'', dict = ''NEW-DICT''\<rparr>,
        \<lparr>created = 1627649001, data = Some \<lparr>id' = ''18'', dict = ''NEW-DICT''\<rparr>\<rparr>,
        [GetDictionary, GetUrl ''https://legacy-api.arpa.li/dict/new''])"
    by (simp add: get_dict_def refresh_dict_def download_dict_def Let_def getitem_def
        raise_for_status_def example_cache_def example_dict_env_def zstd_magic_def)
  have "\<exists>r resp url rd d'.
      get_dictionary (example_dict_env 1627649000 ''18'' ''9f2c'' 200) = Inr r
      \<and> json r = Inr resp \<and> resp ''url'' = Some url
      \<and> get_url (example_dict_env 1627649000 ''18'' ''9f2c'' 200) url = Inr rd
      \<and> raise_for_status rd = Inr ()
      \<and> resp ''sha256''
          = Some (sha256_hexdigest (example_dict_env 1627649000 ''18'' ''9f2c'' 200) (content rd))
      \<and> Inr \<lparr>id' = ''18'', dict = ''NEW-DICT''\<rparr> = Inr d'
      \<and> data \<lparr>created = 1627649001, data = Some \<lparr>id' = ''18'', dict = ''NEW-DICT''\<rparr>\<rparr>
          = Some d'"
    using g t [where env = "example_dict_env 1627649000 ''18'' ''9f2c'' 200"
        and res = "Inr \<lparr>id' = ''18'', dict = ''NEW-DICT''\<rparr>"
        and z' = "\<lparr>created = 1627649001, data = Some \<lparr>id' = ''18'', dict = ''NEW-DICT''\<rparr>\<rparr>"
        and reqs = "[GetDictionary, GetUrl ''https://legacy-api.arpa.li/dict/new'']",
        THEN conjunct2, THEN conjunct2, THEN conjunct2]
    by (simp add: example_cache_def)
  then have 4: "\<exists>url. get_url (example_dict_env 1627649000 ''18'' ''9f2c'' 200) url
          = Inr \<lparr>status_code = 200, content = ''NEW-DICT'', json = Inl JSONDecodeError\<rparr>
        \<and> sha256_hexdigest (example_dict_env 1627649000 ''18'' ''9f2c'' 200) ''NEW-DICT''
            = ''9f2c''
        \<and> fst (get_dict (example_dict_env 1627649000 ''18'' ''9f2c'' 200) example_cache)
            = Inr \<lparr>id' = ''18'', dict = ''NEW-DICT''\<rparr>"
    using g by (simp add: example_dict_env_def)
  show ?thesis using 1 2 3 4 by blast
qed

end
